theory Spec2Isabelle
  imports Main "HOL-Library.Sublist"
begin

section \<open>Paths and the boundary check (src/src/ipc.ts, lines 34-37)\<close>

text \<open>
  A canonical absolute POSIX path is the list of its segments: \<open>/data/ipc/main\<close> is
  \<open>[''data'', ''ipc'', ''main'']\<close> and the root is \<open>[]\<close>. A segment of a canonical
  path is not empty, holds no separator and is neither \<open>.\<close> nor \<open>..\<close>.
\<close>

type_synonym path = "string list"

definition valid_segment :: "string \<Rightarrow> bool" where
  "valid_segment s = (s \<noteq> [] \<and> CHR ''/'' \<notin> set s \<and> s \<noteq> ''.'' \<and> s \<noteq> ''..'')"

definition canonical :: "path \<Rightarrow> bool" where
  "canonical p = list_all valid_segment p"

text \<open>
  Node's \<open>path.relative(from, to)\<close> on canonical absolute paths: the common leading
  segments are dropped, every remaining segment of \<open>from\<close> becomes \<open>..\<close>, the remaining
  segments of \<open>to\<close> follow, and the result is joined with the separator.
\<close>

fun joinWith :: "string \<Rightarrow> string list \<Rightarrow> string" where
  "joinWith sep [] = []"
| "joinWith sep [x] = x"
| "joinWith sep (x # y # ys) = x @ sep @ joinWith sep (y # ys)"

fun relative_segs :: "path \<Rightarrow> path \<Rightarrow> string list" where
  "relative_segs (a # as) (b # bs) =
     (if a = b then relative_segs as bs
      else replicate (length (a # as)) ''..'' @ (b # bs))"
| "relative_segs as [] = replicate (length as) ''..''"
| "relative_segs [] bs = bs"

definition relative :: "path \<Rightarrow> path \<Rightarrow> string" where
  "relative from to = joinWith ''/'' (relative_segs from to)"

text \<open>\<open>String.prototype.startsWith\<close> and \<open>String.prototype.endsWith\<close>.\<close>

definition startsWith :: "string \<Rightarrow> string \<Rightarrow> bool" where
  "startsWith s p = (take (length p) s = p)"

definition endsWith :: "string \<Rightarrow> string \<Rightarrow> bool" where
  "endsWith s p = (drop (length s - length p) s = p)"

text \<open>\<open>path.isAbsolute\<close> on POSIX: the string begins with the separator.\<close>

definition isAbsolute :: "string \<Rightarrow> bool" where
  "isAbsolute s = (case s of [] \<Rightarrow> False | c # _ \<Rightarrow> c = CHR ''/'')"

definition isWithinBoundary :: "path \<Rightarrow> path \<Rightarrow> bool" where
  "isWithinBoundary basePath candidatePath =
     (let rel = relative basePath candidatePath
      in rel = [] \<or> (\<not> startsWith rel ''..'' \<and> \<not> isAbsolute rel))"

section \<open>Data model (src/src/ipc.ts, lines 18-30 and 269-291)\<close>

text \<open>
  \<open>RegisteredGroup\<close> and the task row handed to \<open>createTask\<close>, with the fields the
  source reads and writes. Field names that the envelope also uses carry a suffix.
  A timestamp is the millisecond time value its ISO-8601 string denotes.
\<close>

record RegisteredGroup =
  name_g :: string
  folder_g :: string
  trigger_g :: string
  added_at :: int
  containerConfig_g :: "string option"
  requiresTrigger_g :: "bool option"

record Task =
  id_t :: string
  group_folder :: string
  chat_jid :: string
  prompt_t :: string
  schedule_type_t :: string
  schedule_value_t :: string
  context_mode_t :: string
  next_run :: "int option"
  status :: string
  created_at :: int

text \<open>
  The parsed envelope: the fields declared for the \<open>data\<close> parameter of
  \<open>processTaskIpc\<close> together with \<open>text\<close> of a message envelope. A field that is
  absent (\<open>undefined\<close>) is \<open>None\<close>. Values are of the declared types.
\<close>

record ipc_data =
  type :: "string option"
  taskId :: "string option"
  prompt :: "string option"
  schedule_type :: "string option"
  schedule_value :: "string option"
  context_mode :: "string option"
  groupFolder :: "string option"
  chatJid :: "string option"
  targetJid :: "string option"
  jid :: "string option"
  name :: "string option"
  folder :: "string option"
  trigger :: "string option"
  requiresTrigger :: "bool option"
  containerConfig :: "string option"
  text_m :: "string option"

text \<open>JavaScript truthiness of an optional string: present and not empty.\<close>

definition truthy :: "string option \<Rightarrow> bool" where
  "truthy v = (case v of None \<Rightarrow> False | Some s \<Rightarrow> s \<noteq> [])"

section \<open>File system, collaborators and state\<close>

datatype node = File string | Symlink path | Dir | Special

datatype exn =
    SyntaxError | RangeError | SendRejected
  | ENOENT | EISDIR | ELOOP | ENOTDIR | ENAMETOOLONG | ENOTEMPTY | EINVAL | EBUSY | EACCES

datatype completion = Returned | Skipped | Threw exn

datatype level = Info | Warn | Error

text \<open>
  Every call of a collaborator, every file read and every log line is recorded in
  a trace, in the order of the calls. A log line is recorded with its level and
  message; the structured context object of the logger is not part of the model.
\<close>

datatype event =
    ReadFile path
  | SendMessage string string
  | CreateTask Task
  | UpdateTask string string
  | DeleteTask string
  | RegisterGroup string RegisteredGroup
  | SyncGroupMetadata bool
  | WriteGroupsSnapshot string bool "string list" "string set"
  | Log level string

record state =
  fs :: "path \<rightharpoonup> node"
  tasks :: "string \<rightharpoonup> Task"
  groups :: "string \<rightharpoonup> RegisteredGroup"
  trace :: "event list"

text \<open>
  What ipc.ts takes from outside: the configuration constant
  \<open>MAIN_GROUP_FOLDER\<close>, the validator \<open>isValidGroupFolder\<close> of group-folder.ts, the
  platform's \<open>JSON.parse\<close> and \<open>Date\<close> parsing, the cron library, the readings of the
  clock at the four places that read it, the random suffix of a task id, whether
  \<open>deps.sendMessage\<close> rejects, the result of \<open>deps.getAvailableGroups\<close>, the longest
  file name \<open>NAME_MAX\<close> of the file system, and whether the operating system
  refuses a rename for a reason that the map of nodes does not show (permissions,
  another device, a read-only or full file system). A parser
  that throws gives \<open>None\<close>: \<open>JSON_parse\<close> is \<open>None\<close> on a content that is not JSON
  and on \<open>null\<close>, whose field \<open>type\<close> cannot be read; \<open>cron_next\<close> is the next fire
  time of an expression, \<open>Date_parse\<close> the time value of a date string.
\<close>

record host =
  MAIN_GROUP_FOLDER :: string
  isValidGroupFolder :: "string \<Rightarrow> bool"
  JSON_parse :: "string \<Rightarrow> ipc_data option"
  cron_next :: "string \<Rightarrow> int option"
  Date_parse :: "string \<Rightarrow> int option"
  now_interval :: int
  now_taskId :: int
  now_created :: int
  now_added :: int
  random_suffix :: string
  sendMessage_rejects :: "string \<Rightarrow> string \<Rightarrow> bool"
  availableGroups :: "string list"
  NAME_MAX :: nat
  rename_refused :: "path \<Rightarrow> path \<Rightarrow> bool"

definition log :: "level \<Rightarrow> string \<Rightarrow> state \<Rightarrow> state" where
  "log l m st = st\<lparr>trace := trace st @ [Log l m]\<rparr>"

text \<open>
  Modelled from the spec: the store operations \<open>createTask\<close>, \<open>getTaskById\<close>,
  \<open>updateTask\<close> and \<open>deleteTask\<close> of db.ts are not among the sources. The store is a
  map from task id to task: create inserts, update sets the status of an existing
  task, delete removes.
\<close>

definition createTask :: "Task \<Rightarrow> state \<Rightarrow> state" where
  "createTask t st =
     st\<lparr>tasks := (tasks st)(id_t t \<mapsto> t), trace := trace st @ [CreateTask t]\<rparr>"

definition getTaskById :: "string \<Rightarrow> state \<Rightarrow> Task option" where
  "getTaskById i st = tasks st i"

definition updateTask :: "string \<Rightarrow> string \<Rightarrow> state \<Rightarrow> state" where
  "updateTask i s st =
     st\<lparr>tasks := (case tasks st i of None \<Rightarrow> tasks st
                   | Some t \<Rightarrow> (tasks st)(i \<mapsto> t\<lparr>status := s\<rparr>)),
        trace := trace st @ [UpdateTask i s]\<rparr>"

definition deleteTask :: "string \<Rightarrow> state \<Rightarrow> state" where
  "deleteTask i st =
     st\<lparr>tasks := (tasks st)(i := None), trace := trace st @ [DeleteTask i]\<rparr>"

text \<open>
  Modelled from the spec: \<open>deps.registerGroup\<close> is a callback whose body is not among
  the sources; it inserts or overwrites the entry of the registry under the jid.
\<close>

definition registerGroup :: "string \<Rightarrow> RegisteredGroup \<Rightarrow> state \<Rightarrow> state" where
  "registerGroup j g st =
     st\<lparr>groups := (groups st)(j \<mapsto> g), trace := trace st @ [RegisterGroup j g]\<rparr>"

section \<open>Numbers and dates of the platform\<close>

text \<open>
  A string is the list of the bytes of its UTF-8 encoding. The white space that
  \<open>parseInt\<close> skips is the white space and the line terminators of ECMAScript:
  the six ASCII ones, U+00A0 in two bytes, and in three bytes U+1680, U+2000 to
  U+200A, U+2028, U+2029, U+202F, U+205F, U+3000 and U+FEFF. The byte A0 alone,
  which is the no-break space of a string written one byte per code unit, is
  skipped as well; no character of a UTF-8 string begins with that byte.
\<close>

definition ws1 :: "nat \<Rightarrow> bool" where
  "ws1 a = (a = 9 \<or> a = 10 \<or> a = 11 \<or> a = 12 \<or> a = 13 \<or> a = 32 \<or> a = 160)"

definition ws2 :: "nat \<Rightarrow> nat \<Rightarrow> bool" where
  "ws2 a b = (a = 194 \<and> b = 160)"

definition ws3 :: "nat \<Rightarrow> nat \<Rightarrow> nat \<Rightarrow> bool" where
  "ws3 a b c =
     ((a = 225 \<and> b = 154 \<and> c = 128)
      \<or> (a = 226 \<and> b = 128 \<and> ((128 \<le> c \<and> c \<le> 138) \<or> c = 168 \<or> c = 169 \<or> c = 175))
      \<or> (a = 226 \<and> b = 129 \<and> c = 159)
      \<or> (a = 227 \<and> b = 128 \<and> c = 128)
      \<or> (a = 239 \<and> b = 187 \<and> c = 191))"

fun skipWhiteSpace :: "string \<Rightarrow> string" where
  "skipWhiteSpace (a # b # c # r) =
     (if ws1 (of_char a) then skipWhiteSpace (b # c # r)
      else if ws2 (of_char a) (of_char b) then skipWhiteSpace (c # r)
      else if ws3 (of_char a) (of_char b) (of_char c) then skipWhiteSpace r
      else a # b # c # r)"
| "skipWhiteSpace [a, b] =
     (if ws1 (of_char a) then skipWhiteSpace [b]
      else if ws2 (of_char a) (of_char b) then []
      else [a, b])"
| "skipWhiteSpace [a] = (if ws1 (of_char a) then [] else [a])"
| "skipWhiteSpace [] = []"

text \<open>
  A number of the platform is a double. The model keeps the integers among them
  and the two infinities; \<open>NaN\<close> is not a number. \<open>to_double\<close> is the double nearest
  to a natural number, ties to the even mantissa of 53 bits, infinite from
  \<open>2^1024 - 2^970\<close> on; below \<open>2^53\<close> every integer is a double.
\<close>

datatype jsnumber = NaN | Num int | PosInfinity | NegInfinity

function bit_length :: "int \<Rightarrow> nat" where
  "bit_length n = (if n \<le> 0 then 0 else Suc (bit_length (n div 2)))"
  by pat_completeness auto
termination
  by (relation "measure nat") auto

declare bit_length.simps [simp del]

definition to_double :: "int \<Rightarrow> jsnumber" where
  "to_double n =
     (if n < 2 ^ 53 then Num n
      else
        (let e = bit_length n - 53;
             q = n div 2 ^ e;
             r = n mod 2 ^ e;
             half = 2 ^ (e - 1);
             q' = (if half < r \<or> (r = half \<and> odd q) then q + 1 else q);
             v = q' * 2 ^ e
         in if 2 ^ 1024 \<le> v then PosInfinity else Num v))"

definition negate :: "jsnumber \<Rightarrow> jsnumber" where
  "negate x =
     (case x of
        NaN \<Rightarrow> NaN
      | Num v \<Rightarrow> Num (- v)
      | PosInfinity \<Rightarrow> NegInfinity
      | NegInfinity \<Rightarrow> PosInfinity)"

text \<open>
  \<open>parseInt(s, 10)\<close>: leading white space is skipped, one sign is read, then the
  longest run of decimal digits; no digit gives \<open>NaN\<close>, and otherwise the result
  is the double nearest to the integer read, with the sign.
\<close>

definition isDigit :: "char \<Rightarrow> bool" where
  "isDigit c = (48 \<le> (of_char c :: nat) \<and> (of_char c :: nat) \<le> 57)"

definition digitVal :: "char \<Rightarrow> nat" where
  "digitVal c = of_char c - 48"

definition parseInt10 :: "string \<Rightarrow> jsnumber" where
  "parseInt10 s =
     (let t = skipWhiteSpace s;
          neg = (case t of [] \<Rightarrow> False | c # _ \<Rightarrow> c = CHR ''-'');
          u = (case t of [] \<Rightarrow> [] | c # r \<Rightarrow> if c = CHR ''-'' \<or> c = CHR ''+'' then r else t);
          ds = takeWhile isDigit u;
          n = foldl (\<lambda>a c. 10 * a + int (digitVal c)) 0 ds
      in if ds = [] then NaN else if neg then negate (to_double n) else to_double n)"

text \<open>Decimal rendering of a clock reading inside a task id.\<close>

function show_int :: "int \<Rightarrow> string" where
  "show_int n =
     (if n < 0 then CHR ''-'' # show_int (- n)
      else if n < 10 then [char_of (48 + n)]
      else show_int (n div 10) @ [char_of (48 + n mod 10)])"
  by pat_completeness auto
termination
  by (relation "measure (\<lambda>n. if n < 0 then Suc (nat (- n)) else nat n)") auto

declare show_int.simps [simp del]

text \<open>
  A \<open>Date\<close> holds a time value of at most 8.64e15 milliseconds in absolute value;
  beyond that it is invalid and \<open>toISOString\<close> throws a \<open>RangeError\<close>. A reading of
  the clock is such a time value. The sum of two integer doubles is rounded to a
  double; a sum within the range of a \<open>Date\<close> lies below \<open>2^53\<close> and is exact,
  and a sum beyond the range stays beyond it when rounded, so the exact sum
  decides the validity and is the time value of every valid \<open>Date\<close>.
\<close>

definition valid_time :: "int \<Rightarrow> bool" where
  "valid_time t = (\<bar>t\<bar> \<le> 8640000000000000)"

section \<open>The command handler (src/src/ipc.ts, lines 269-501)\<close>

text \<open>
  Lines 327-361: the next run of a schedule. \<open>Rejected\<close> is a logged warning followed
  by \<open>break\<close>; \<open>Raised\<close> is an exception that leaves \<open>processTaskIpc\<close>.
\<close>

datatype next_run_result = NextRun "int option" | Rejected string | Raised exn

definition nextRun_of :: "host \<Rightarrow> string \<Rightarrow> string \<Rightarrow> next_run_result" where
  "nextRun_of h scheduleType value =
     (if scheduleType = ''cron'' then
        (case cron_next h value of
           None \<Rightarrow> Rejected ''Invalid cron expression''
         | Some t \<Rightarrow> NextRun (Some t))
      else if scheduleType = ''interval'' then
        (case parseInt10 value of
           NaN \<Rightarrow> Rejected ''Invalid interval''
         | NegInfinity \<Rightarrow> Rejected ''Invalid interval''
         | PosInfinity \<Rightarrow> Raised RangeError
         | Num ms \<Rightarrow>
             if ms \<le> 0 then Rejected ''Invalid interval''
             else if valid_time (now_interval h + ms)
               then NextRun (Some (now_interval h + ms))
               else Raised RangeError)
      else if scheduleType = ''once'' then
        (case Date_parse h value of
           None \<Rightarrow> Rejected ''Invalid timestamp''
         | Some t \<Rightarrow> NextRun (Some t))
      else NextRun None)"

definition new_taskId :: "host \<Rightarrow> string" where
  "new_taskId h = ''task-'' @ show_int (now_taskId h) @ ''-'' @ random_suffix h"

definition contextMode_of :: "string option \<Rightarrow> string" where
  "contextMode_of m =
     (if m = Some ''group'' \<or> m = Some ''isolated''
      then (case m of Some c \<Rightarrow> c | None \<Rightarrow> ''isolated'')
      else ''isolated'')"

definition schedule_task ::
  "host \<Rightarrow> ipc_data \<Rightarrow> string \<Rightarrow> bool \<Rightarrow> state \<Rightarrow> completion \<times> state" where
  "schedule_task h data sourceGroup isMain st =
     (case (prompt data, schedule_type data, schedule_value data, targetJid data) of
        (Some p, Some ty, Some v, Some j) \<Rightarrow>
          if p \<noteq> [] \<and> ty \<noteq> [] \<and> v \<noteq> [] \<and> j \<noteq> [] then
            (case groups st j of
               None \<Rightarrow>
                 (Returned, log Warn ''Cannot schedule task: target group not registered'' st)
             | Some targetGroupEntry \<Rightarrow>
                 let targetFolder = folder_g targetGroupEntry in
                 if \<not> isMain \<and> targetFolder \<noteq> sourceGroup then
                   (Returned, log Warn ''Unauthorized schedule_task attempt blocked'' st)
                 else
                   (case nextRun_of h ty v of
                      Rejected msg \<Rightarrow> (Returned, log Warn msg st)
                    | Raised e \<Rightarrow> (Threw e, st)
                    | NextRun nextRun \<Rightarrow>
                        (Returned,
                         log Info ''Task created via IPC''
                           (createTask
                              \<lparr>id_t = new_taskId h,
                               group_folder = targetFolder,
                               chat_jid = j,
                               prompt_t = p,
                               schedule_type_t = ty,
                               schedule_value_t = v,
                               context_mode_t = contextMode_of (context_mode data),
                               next_run = nextRun,
                               status = ''active'',
                               created_at = now_created h\<rparr> st))))
          else (Returned, st)
      | _ \<Rightarrow> (Returned, st))"

text \<open>
  Lines 387-439: pause, resume and cancel share one shape; \<open>act\<close> is the store
  call of the authorised branch, \<open>done\<close> and \<open>denied\<close> the two log messages.
\<close>

definition on_task ::
  "(string \<Rightarrow> state \<Rightarrow> state) \<Rightarrow> string \<Rightarrow> string \<Rightarrow> ipc_data \<Rightarrow> string \<Rightarrow> bool
     \<Rightarrow> state \<Rightarrow> completion \<times> state" where
  "on_task act done denied data sourceGroup isMain st =
     (case taskId data of
        None \<Rightarrow> (Returned, st)
      | Some i \<Rightarrow>
          if i = [] then (Returned, st)
          else
            (case getTaskById i st of
               None \<Rightarrow> (Returned, log Warn denied st)
             | Some task \<Rightarrow>
                 if isMain \<or> group_folder task = sourceGroup
                 then (Returned, log Info done (act i st))
                 else (Returned, log Warn denied st)))"

definition refresh_groups :: "host \<Rightarrow> string \<Rightarrow> bool \<Rightarrow> state \<Rightarrow> completion \<times> state" where
  "refresh_groups h sourceGroup isMain st =
     (if isMain then
        (Returned,
         st\<lparr>trace := trace st @
            [Log Info ''Group metadata refresh requested via IPC'',
             SyncGroupMetadata True,
             WriteGroupsSnapshot sourceGroup True (availableGroups h) (dom (groups st))]\<rparr>)
      else (Returned, log Warn ''Unauthorized refresh_groups attempt blocked'' st))"

definition register_group ::
  "host \<Rightarrow> ipc_data \<Rightarrow> string \<Rightarrow> bool \<Rightarrow> state \<Rightarrow> completion \<times> state" where
  "register_group h data sourceGroup isMain st =
     (if \<not> isMain then
        (Returned, log Warn ''Unauthorized register_group attempt blocked'' st)
      else
        (case (jid data, name data, folder data, trigger data) of
           (Some j, Some n, Some f, Some t) \<Rightarrow>
             if j \<noteq> [] \<and> n \<noteq> [] \<and> f \<noteq> [] \<and> t \<noteq> [] then
               if \<not> isValidGroupFolder h f then
                 (Returned,
                  log Warn ''Invalid register_group request - unsafe folder name'' st)
               else
                 (Returned,
                  registerGroup j
                    \<lparr>name_g = n, folder_g = f, trigger_g = t, added_at = now_added h,
                     containerConfig_g = containerConfig data,
                     requiresTrigger_g = requiresTrigger data\<rparr> st)
             else
               (Returned,
                log Warn ''Invalid register_group request - missing required fields'' st)
         | _ \<Rightarrow>
             (Returned,
              log Warn ''Invalid register_group request - missing required fields'' st)))"

definition processTaskIpc ::
  "host \<Rightarrow> ipc_data \<Rightarrow> string \<Rightarrow> bool \<Rightarrow> state \<Rightarrow> completion \<times> state" where
  "processTaskIpc h data sourceGroup isMain st =
     (if type data = Some ''schedule_task'' then schedule_task h data sourceGroup isMain st
      else if type data = Some ''pause_task'' then
        on_task (\<lambda>i. updateTask i ''paused'') ''Task paused via IPC''
          ''Unauthorized task pause attempt'' data sourceGroup isMain st
      else if type data = Some ''resume_task'' then
        on_task (\<lambda>i. updateTask i ''active'') ''Task resumed via IPC''
          ''Unauthorized task resume attempt'' data sourceGroup isMain st
      else if type data = Some ''cancel_task'' then
        on_task deleteTask ''Task cancelled via IPC''
          ''Unauthorized task cancel attempt'' data sourceGroup isMain st
      else if type data = Some ''refresh_groups'' then refresh_groups h sourceGroup isMain st
      else if type data = Some ''register_group'' then
        register_group h data sourceGroup isMain st
      else (Returned, log Warn ''Unknown IPC task type'' st))"

section \<open>File-system calls\<close>

text \<open>
  The calls of Node's \<open>fs\<close> module on the map from canonical paths to nodes; \<open>Inl\<close>
  is the exception thrown. A name joined to a canonical directory is the name of
  one of its entries, so \<open>path.join(dir, file)\<close> is \<open>dir @ [file]\<close>. Links are
  followed at the last segment, at most forty in a row.
\<close>

definition lstatSync :: "state \<Rightarrow> path \<Rightarrow> exn + node" where
  "lstatSync st p = (case fs st p of None \<Rightarrow> Inl ENOENT | Some n \<Rightarrow> Inr n)"

definition isFile :: "node \<Rightarrow> bool" where
  "isFile n = (case n of File _ \<Rightarrow> True | _ \<Rightarrow> False)"

definition isSymbolicLink :: "node \<Rightarrow> bool" where
  "isSymbolicLink n = (case n of Symlink _ \<Rightarrow> True | _ \<Rightarrow> False)"

fun resolve :: "nat \<Rightarrow> (path \<rightharpoonup> node) \<Rightarrow> path \<Rightarrow> exn + path" where
  "resolve 0 f p = Inl ELOOP"
| "resolve (Suc k) f p =
     (case f p of
        None \<Rightarrow> Inl ENOENT
      | Some (Symlink t) \<Rightarrow> resolve k f t
      | Some _ \<Rightarrow> Inr p)"

definition realpathSync :: "state \<Rightarrow> path \<Rightarrow> exn + path" where
  "realpathSync st p = resolve 41 (fs st) p"

definition readFileSync :: "state \<Rightarrow> path \<Rightarrow> exn + string" where
  "readFileSync st p =
     (case realpathSync st p of
        Inl e \<Rightarrow> Inl e
      | Inr q \<Rightarrow>
          (case fs st q of
             Some (File c) \<Rightarrow> Inr c
           | Some Dir \<Rightarrow> Inl EISDIR
           | _ \<Rightarrow> Inl ENOENT))"

definition unlinkSync :: "state \<Rightarrow> path \<Rightarrow> exn + state" where
  "unlinkSync st p =
     (case fs st p of
        None \<Rightarrow> Inl ENOENT
      | Some Dir \<Rightarrow> Inl EISDIR
      | Some _ \<Rightarrow> Inr (st\<lparr>fs := (fs st)(p := None)\<rparr>))"

text \<open>
  \<open>renameSync\<close>, after rename(2). The source must exist; the last segment of
  the destination must not be longer than \<open>NAME_MAX\<close>; the parent of the
  destination must be a directory; the operating system may refuse. A source
  that is not a directory replaces whatever stands at the destination, unless a
  directory stands there. A directory moves with everything below it, to a
  destination that does not exist or is an empty directory and does not lie
  inside the source.
\<close>

definition empty_dir :: "(path \<rightharpoonup> node) \<Rightarrow> path \<Rightarrow> bool" where
  "empty_dir f d = (\<forall>p. strict_prefix d p \<longrightarrow> f p = None)"

definition move_tree :: "(path \<rightharpoonup> node) \<Rightarrow> path \<Rightarrow> path \<Rightarrow> (path \<rightharpoonup> node)" where
  "move_tree f src dst =
     (\<lambda>p. if prefix dst p then f (src @ drop (length dst) p)
          else if prefix src p then None
          else f p)"

definition renameSync :: "host \<Rightarrow> state \<Rightarrow> path \<Rightarrow> path \<Rightarrow> exn + state" where
  "renameSync h st src dst =
     (case fs st src of
        None \<Rightarrow> Inl ENOENT
      | Some n \<Rightarrow>
          if dst = [] then Inl EBUSY
          else if NAME_MAX h < length (last dst) then Inl ENAMETOOLONG
          else if fs st (butlast dst) \<noteq> Some Dir then Inl ENOENT
          else if rename_refused h src dst then Inl EACCES
          else if src = dst then Inr st
          else if n = Dir then
            (if prefix src dst then Inl EINVAL
             else
               (case fs st dst of
                  None \<Rightarrow> Inr (st\<lparr>fs := move_tree (fs st) src dst\<rparr>)
                | Some Dir \<Rightarrow>
                    if empty_dir (fs st) dst
                    then Inr (st\<lparr>fs := move_tree (fs st) src dst\<rparr>)
                    else Inl ENOTEMPTY
                | Some _ \<Rightarrow> Inl ENOTDIR))
          else
            (case fs st dst of
               Some Dir \<Rightarrow> Inl EISDIR
             | _ \<Rightarrow> Inr (st\<lparr>fs := ((fs st)(src := None))(dst \<mapsto> n)\<rparr>)))"

section \<open>Quarantine (src/src/ipc.ts, lines 39-62)\<close>

definition safeMoveToErrorDir ::
  "host \<Rightarrow> path \<Rightarrow> string \<Rightarrow> string \<Rightarrow> path \<Rightarrow> path \<Rightarrow> state \<Rightarrow> state" where
  "safeMoveToErrorDir h filePath sourceGroup file canonicalSourceDir canonicalErrorDir st =
     (case realpathSync st filePath of
        Inl e \<Rightarrow> log Error ''Failed to move IPC file to errors directory'' st
      | Inr canonicalFilePath \<Rightarrow>
          if \<not> isWithinBoundary canonicalSourceDir canonicalFilePath then
            log Warn ''Rejected IPC file move outside canonical source directory'' st
          else
            (case renameSync h st canonicalFilePath
                    (canonicalErrorDir @ [sourceGroup @ ''-'' @ file]) of
               Inl e \<Rightarrow> log Error ''Failed to move IPC file to errors directory'' st
             | Inr st' \<Rightarrow> st'))"

section \<open>Message and task files (src/src/ipc.ts, lines 119-229)\<close>

text \<open>Lines 145-160: authorisation and forwarding of a parsed message envelope.\<close>

definition forward ::
  "host \<Rightarrow> ipc_data \<Rightarrow> string \<Rightarrow> bool \<Rightarrow> (string \<rightharpoonup> RegisteredGroup) \<Rightarrow> state
     \<Rightarrow> completion \<times> state" where
  "forward h data sourceGroup isMain registeredGroups st =
     (case (type data, chatJid data, text_m data) of
        (Some ty, Some j, Some t) \<Rightarrow>
          if ty = ''message'' \<and> j \<noteq> [] \<and> t \<noteq> [] then
            if isMain \<or>
               (case registeredGroups j of
                  None \<Rightarrow> False
                | Some targetGroup \<Rightarrow> folder_g targetGroup = sourceGroup)
            then
              (let st' = st\<lparr>trace := trace st @ [SendMessage j t]\<rparr>
               in if sendMessage_rejects h j t then (Threw SendRejected, st')
                  else (Returned, log Info ''IPC message sent'' st'))
            else (Returned, log Warn ''Unauthorized IPC message attempt blocked'' st)
          else (Returned, st)
      | _ \<Rightarrow> (Returned, st))"

text \<open>
  Lines 128-161: the body of the \<open>try\<close> for one message file. \<open>Skipped\<close> is the
  \<open>continue\<close> of a rejected entry, \<open>Threw\<close> an exception that reaches the \<open>catch\<close>.
\<close>

definition tryMessageFile ::
  "host \<Rightarrow> string \<Rightarrow> bool \<Rightarrow> (string \<rightharpoonup> RegisteredGroup) \<Rightarrow> path \<Rightarrow> string \<Rightarrow> state
     \<Rightarrow> completion \<times> state" where
  "tryMessageFile h sourceGroup isMain registeredGroups canonicalMessagesDir file st =
     (let filePath = canonicalMessagesDir @ [file] in
      case lstatSync st filePath of
        Inl e \<Rightarrow> (Threw e, st)
      | Inr stat \<Rightarrow>
          if \<not> isFile stat \<or> isSymbolicLink stat then
            (Skipped, log Warn ''Rejected non-regular IPC message file'' st)
          else
            (case realpathSync st filePath of
               Inl e \<Rightarrow> (Threw e, st)
             | Inr canonicalFilePath \<Rightarrow>
                 if \<not> isWithinBoundary canonicalMessagesDir canonicalFilePath then
                   (Skipped,
                    log Warn ''Rejected IPC message file outside canonical messages directory'' st)
                 else
                   (let st1 = st\<lparr>trace := trace st @ [ReadFile canonicalFilePath]\<rparr> in
                    case readFileSync st canonicalFilePath of
                      Inl e \<Rightarrow> (Threw e, st1)
                    | Inr content \<Rightarrow>
                        (case JSON_parse h content of
                           None \<Rightarrow> (Threw SyntaxError, st1)
                         | Some data \<Rightarrow>
                             (case forward h data sourceGroup isMain registeredGroups st1 of
                                (Threw e, st2) \<Rightarrow> (Threw e, st2)
                              | (_, st2) \<Rightarrow>
                                  (case unlinkSync st2 canonicalFilePath of
                                     Inl e \<Rightarrow> (Threw e, st2)
                                   | Inr st3 \<Rightarrow> (Returned, st3)))))))"

text \<open>Lines 125-175: one turn of the loop, with the \<open>catch\<close>.\<close>

definition processMessageFile ::
  "host \<Rightarrow> string \<Rightarrow> bool \<Rightarrow> (string \<rightharpoonup> RegisteredGroup) \<Rightarrow> path \<Rightarrow> path \<Rightarrow> string
     \<Rightarrow> state \<Rightarrow> state" where
  "processMessageFile h sourceGroup isMain registeredGroups canonicalMessagesDir
       canonicalErrorDir file st =
     (case tryMessageFile h sourceGroup isMain registeredGroups canonicalMessagesDir file st of
        (Threw e, st') \<Rightarrow>
          safeMoveToErrorDir h (canonicalMessagesDir @ [file]) sourceGroup file
            canonicalMessagesDir canonicalErrorDir
            (log Error ''Error processing IPC message'' st')
      | (_, st') \<Rightarrow> st')"

text \<open>Lines 192-211: the body of the \<open>try\<close> for one task file.\<close>

definition tryTaskFile ::
  "host \<Rightarrow> string \<Rightarrow> bool \<Rightarrow> path \<Rightarrow> string \<Rightarrow> state \<Rightarrow> completion \<times> state" where
  "tryTaskFile h sourceGroup isMain canonicalTasksDir file st =
     (let filePath = canonicalTasksDir @ [file] in
      case lstatSync st filePath of
        Inl e \<Rightarrow> (Threw e, st)
      | Inr stat \<Rightarrow>
          if \<not> isFile stat \<or> isSymbolicLink stat then
            (Skipped, log Warn ''Rejected non-regular IPC task file'' st)
          else
            (case realpathSync st filePath of
               Inl e \<Rightarrow> (Threw e, st)
             | Inr canonicalFilePath \<Rightarrow>
                 if \<not> isWithinBoundary canonicalTasksDir canonicalFilePath then
                   (Skipped,
                    log Warn ''Rejected IPC task file outside canonical tasks directory'' st)
                 else
                   (let st1 = st\<lparr>trace := trace st @ [ReadFile canonicalFilePath]\<rparr> in
                    case readFileSync st canonicalFilePath of
                      Inl e \<Rightarrow> (Threw e, st1)
                    | Inr content \<Rightarrow>
                        (case JSON_parse h content of
                           None \<Rightarrow> (Threw SyntaxError, st1)
                         | Some data \<Rightarrow>
                             (case processTaskIpc h data sourceGroup isMain st1 of
                                (Threw e, st2) \<Rightarrow> (Threw e, st2)
                              | (_, st2) \<Rightarrow>
                                  (case unlinkSync st2 canonicalFilePath of
                                     Inl e \<Rightarrow> (Threw e, st2)
                                   | Inr st3 \<Rightarrow> (Returned, st3)))))))"

text \<open>Lines 190-225: one turn of the loop, with the \<open>catch\<close>.\<close>

definition processTaskFile ::
  "host \<Rightarrow> string \<Rightarrow> bool \<Rightarrow> path \<Rightarrow> path \<Rightarrow> string \<Rightarrow> state \<Rightarrow> state" where
  "processTaskFile h sourceGroup isMain canonicalTasksDir canonicalErrorDir file st =
     (case tryTaskFile h sourceGroup isMain canonicalTasksDir file st of
        (Threw e, st') \<Rightarrow>
          safeMoveToErrorDir h (canonicalTasksDir @ [file]) sourceGroup file
            canonicalTasksDir canonicalErrorDir
            (log Error ''Error processing IPC task'' st')
      | (_, st') \<Rightarrow> st')"

text \<open>The two \<open>for\<close> loops, over the names that \<open>readdirSync\<close> returned.\<close>

fun processMessageFiles ::
  "host \<Rightarrow> string \<Rightarrow> bool \<Rightarrow> (string \<rightharpoonup> RegisteredGroup) \<Rightarrow> path \<Rightarrow> path \<Rightarrow> string list
     \<Rightarrow> state \<Rightarrow> state" where
  "processMessageFiles h sourceGroup isMain registeredGroups dir errDir [] st = st"
| "processMessageFiles h sourceGroup isMain registeredGroups dir errDir (file # files) st =
     processMessageFiles h sourceGroup isMain registeredGroups dir errDir files
       (processMessageFile h sourceGroup isMain registeredGroups dir errDir file st)"

fun processTaskFiles ::
  "host \<Rightarrow> string \<Rightarrow> bool \<Rightarrow> path \<Rightarrow> path \<Rightarrow> string list \<Rightarrow> state \<Rightarrow> state" where
  "processTaskFiles h sourceGroup isMain dir errDir [] st = st"
| "processTaskFiles h sourceGroup isMain dir errDir (file # files) st =
     processTaskFiles h sourceGroup isMain dir errDir files
       (processTaskFile h sourceGroup isMain dir errDir file st)"

text \<open>
  \<open>processGroupIpcFiles\<close>, line 70 and lines 119-229. Lines 71-117 resolve and
  check the three directories; what they leave in \<open>canonicalMessagesDir\<close>,
  \<open>canonicalTasksDir\<close> (\<open>None\<close> is \<open>null\<close>) and \<open>canonicalErrorDir\<close> is taken as
  argument, and so is the result of each \<open>readdirSync\<close> (\<open>None\<close>: it throws).
\<close>

definition processGroupIpcFiles ::
  "host \<Rightarrow> string \<Rightarrow> (string \<rightharpoonup> RegisteredGroup) \<Rightarrow> path option \<Rightarrow> path option \<Rightarrow> path
     \<Rightarrow> string list option \<Rightarrow> string list option \<Rightarrow> state \<Rightarrow> state" where
  "processGroupIpcFiles h sourceGroup registeredGroups canonicalMessagesDir canonicalTasksDir
       canonicalErrorDir messageEntries taskEntries st =
     (let isMain = (sourceGroup = MAIN_GROUP_FOLDER h);
          st1 = (case canonicalMessagesDir of
                   None \<Rightarrow> st
                 | Some dir \<Rightarrow>
                     (case messageEntries of
                        None \<Rightarrow> log Error ''Error reading IPC messages directory'' st
                      | Some entries \<Rightarrow>
                          processMessageFiles h sourceGroup isMain registeredGroups dir
                            canonicalErrorDir (filter (\<lambda>f. endsWith f ''.json'') entries) st))
      in case canonicalTasksDir of
           None \<Rightarrow> st1
         | Some dir \<Rightarrow>
             (case taskEntries of
                None \<Rightarrow> log Error ''Error reading IPC tasks directory'' st1
              | Some entries \<Rightarrow>
                  processTaskFiles h sourceGroup isMain dir canonicalErrorDir
                    (filter (\<lambda>f. endsWith f ''.json'') entries) st1))"

section \<open>A concrete installation\<close>

text \<open>
  Modelled from the spec: \<open>isValidGroupFolder\<close> of group-folder.ts is not among the
  sources; the spec calls it a validation of the folder name against an allow-list
  pattern that refuses \<open>../escape\<close>. The installation below takes the names made
  of letters, digits, \<open>_\<close> and \<open>-\<close>.
\<close>

definition allowlisted :: "string \<Rightarrow> bool" where
  "allowlisted f =
     (f \<noteq> [] \<and>
      list_all (\<lambda>c. isDigit c \<or> c = CHR ''_'' \<or> c = CHR ''-''
                  \<or> (65 \<le> (of_char c :: nat) \<and> (of_char c :: nat) \<le> 90)
                  \<or> (97 \<le> (of_char c :: nat) \<and> (of_char c :: nat) \<le> 122)) f)"

definition no_data :: ipc_data where
  "no_data =
     \<lparr>type = None, taskId = None, prompt = None, schedule_type = None,
      schedule_value = None, context_mode = None, groupFolder = None, chatJid = None,
      targetJid = None, jid = None, name = None, folder = None, trigger = None,
      requiresTrigger = None, containerConfig = None, text_m = None\<rparr>"

definition message_to :: "string \<Rightarrow> ipc_data" where
  "message_to j = no_data\<lparr>type := Some ''message'', chatJid := Some j, text_m := Some ''hello''\<rparr>"

definition task_command :: "string \<Rightarrow> ipc_data" where
  "task_command ty = no_data\<lparr>type := Some ty, taskId := Some ''task-1''\<rparr>"

definition schedule_command :: "string \<Rightarrow> string \<Rightarrow> ipc_data" where
  "schedule_command ty v =
     no_data\<lparr>type := Some ''schedule_task'', prompt := Some ''report'',
             schedule_type := Some ty, schedule_value := Some v,
             targetJid := Some ''jid-a''\<rparr>"

definition register_command :: "string \<Rightarrow> ipc_data" where
  "register_command f =
     no_data\<lparr>type := Some ''register_group'', jid := Some ''jid-c'', name := Some ''Gamma'',
             folder := Some f, trigger := Some ''@bot''\<rparr>"

text \<open>
  The file contents of the installation and what \<open>JSON.parse\<close> makes of them;
  every other content does not parse.
\<close>

definition parse0 :: "string \<Rightarrow> ipc_data option" where
  "parse0 c =
     (if c = ''message to jid-a'' then Some (message_to ''jid-a'')
      else if c = ''message to jid-b'' then Some (message_to ''jid-b'')
      else if c = ''message without text''
        then Some ((message_to ''jid-a'')\<lparr>text_m := Some []\<rparr>)
      else if c = ''pause task-1'' then Some (task_command ''pause_task'')
      else if c = ''interval 8640000000000000''
        then Some (schedule_command ''interval'' ''8640000000000000'')
      else None)"

definition date0 :: "string \<Rightarrow> int option" where
  "date0 v =
     (if v = ''2099-01-01T00:00:00Z'' then Some 4070908800000
      else if v = ''2020-01-01T00:00:00Z'' then Some 1577836800000
      else None)"

definition host0 :: host where
  "host0 =
     \<lparr>MAIN_GROUP_FOLDER = ''main'', isValidGroupFolder = allowlisted, JSON_parse = parse0,
      cron_next = (\<lambda>v. None), Date_parse = date0,
      now_interval = 1793664000000, now_taskId = 1793664000001,
      now_created = 1793664000002, now_added = 1793664000003,
      random_suffix = ''k3x9q2'', sendMessage_rejects = (\<lambda>j t. False),
      availableGroups = [], NAME_MAX = 255, rename_refused = (\<lambda>src dst. False)\<rparr>"

definition group_in :: "string \<Rightarrow> RegisteredGroup" where
  "group_in f =
     \<lparr>name_g = f, folder_g = f, trigger_g = ''@bot'', added_at = 0,
      containerConfig_g = None, requiresTrigger_g = None\<rparr>"

definition groups0 :: "string \<rightharpoonup> RegisteredGroup" where
  "groups0 = [''jid-a'' \<mapsto> group_in ''alpha'', ''jid-b'' \<mapsto> group_in ''beta'']"

definition task0 :: Task where
  "task0 =
     \<lparr>id_t = ''task-1'', group_folder = ''alpha'', chat_jid = ''jid-a'', prompt_t = ''report'',
      schedule_type_t = ''once'', schedule_value_t = ''2099-01-01T00:00:00Z'',
      context_mode_t = ''isolated'', next_run = Some 4070908800000, status = ''active'',
      created_at = 0\<rparr>"

definition messages0 :: path where
  "messages0 = [''ipc'', ''beta'', ''messages'']"

definition tasks0 :: path where
  "tasks0 = [''ipc'', ''alpha'', ''tasks'']"

definition errors0 :: path where
  "errors0 = [''ipc'', ''errors'']"

definition fs0 :: "path \<rightharpoonup> node" where
  "fs0 =
     [errors0 \<mapsto> Dir, messages0 \<mapsto> Dir, tasks0 \<mapsto> Dir,
      messages0 @ [''a.json''] \<mapsto> File ''message to jid-a'',
      messages0 @ [''b.json''] \<mapsto> File ''message to jid-b'',
      messages0 @ [''link.json''] \<mapsto> Symlink (messages0 @ [''b.json'']),
      messages0 @ [''bad.json''] \<mapsto> File ''{'',
      tasks0 @ [''pause.json''] \<mapsto> File ''pause task-1'',
      tasks0 @ [''huge.json''] \<mapsto> File ''interval 8640000000000000'',
      tasks0 @ [''bad.json''] \<mapsto> File ''{'']"

definition st0 :: state where
  "st0 = \<lparr>fs = fs0, tasks = [''task-1'' \<mapsto> task0], groups = groups0, trace = []\<rparr>"

text \<open>
  The messages directory of the main tenant, with a message whose text is empty
  and a message in a file whose name begins with two dots.
\<close>

definition main_messages0 :: path where
  "main_messages0 = [''ipc'', ''main'', ''messages'']"

definition main0 :: state where
  "main0 =
     st0\<lparr>fs := (fs st0)
            (main_messages0 \<mapsto> Dir,
             main_messages0 @ [''empty.json''] \<mapsto> File ''message without text'',
             main_messages0 @ [''..x.json''] \<mapsto> File ''message to jid-a'')\<rparr>"

text \<open>
  A task file of alpha whose name has 255 bytes, the longest a file system with
  \<open>NAME_MAX = 255\<close> allows; its content does not parse.
\<close>

definition long_name :: string where
  "long_name = replicate 250 (CHR ''a'') @ ''.json''"

definition long0 :: state where
  "long0 = st0\<lparr>fs := (fs st0)(tasks0 @ [long_name] \<mapsto> File ''{'')\<rparr>"

section \<open>Observations on traces and files\<close>

text \<open>The calls of \<open>deps.sendMessage\<close> in a trace, in order.\<close>

fun sends :: "event list \<Rightarrow> (string \<times> string) list" where
  "sends [] = []"
| "sends (SendMessage j t # es) = (j, t) # sends es"
| "sends (_ # es) = sends es"

text \<open>
  The forwarding of one message envelope as the specification words it: after
  the turn of the loop, \<open>sendMessage\<close> was called once more, with the channel \<open>j\<close>
  and the text \<open>t\<close>, when the tenant is main or owns the channel, and was not
  called otherwise.
\<close>

definition forwarded_as_claimed ::
  "host \<Rightarrow> string \<Rightarrow> (string \<rightharpoonup> RegisteredGroup) \<Rightarrow> string \<Rightarrow> string \<Rightarrow> state \<Rightarrow> state
     \<Rightarrow> bool" where
  "forwarded_as_claimed h T rg j t st st' =
     (sends (trace st') =
        sends (trace st) @
          (if T = MAIN_GROUP_FOLDER h
              \<or> (case rg j of None \<Rightarrow> False | Some g \<Rightarrow> folder_g g = T)
           then [(j, t)] else []))"

text \<open>
  The consumption of one entry as the specification words it: \<open>c\<close> is how the body
  of the \<open>try\<close> ended, \<open>st\<close> and \<open>st'\<close> the states before and after the turn of the
  loop, \<open>p\<close> the entry and \<open>q\<close> its place in quarantine. After an exception the
  entry is gone from \<open>p\<close> and stands at \<open>q\<close>; otherwise it is gone from \<open>p\<close>.
\<close>

definition consumed_as_claimed :: "completion \<Rightarrow> state \<Rightarrow> state \<Rightarrow> path \<Rightarrow> path \<Rightarrow> bool" where
  "consumed_as_claimed c st st' p q =
     (case c of
        Threw e \<Rightarrow> fs st' p = None \<and> fs st' q = fs st p
      | _ \<Rightarrow> fs st' p = None)"

text \<open>
  The installation with a directory standing where the quarantine of
  \<open>bad.json\<close> of the tenant alpha would go.
\<close>

definition blocked0 :: state where
  "blocked0 = st0\<lparr>fs := (fs st0)(errors0 @ [''alpha-bad.json''] \<mapsto> Dir)\<rparr>"

section \<open>Properties of the boundary check\<close>

lemma startsWith_joinWith_dotdot:
  "startsWith (joinWith ''/'' (''..'' # xs)) ''..''"
  by (cases xs) (simp_all add: startsWith_def)

lemma relative_segs_self: "relative_segs p p = []"
  by (induction p) simp_all

lemma relative_segs_append: "relative_segs b (b @ r) = r"
  by (induction b) (simp_all, cases r, simp_all)

lemma relative_segs_not_prefix:
  "\<not> prefix b p \<Longrightarrow> \<exists>xs. relative_segs b p = ''..'' # xs"
proof (induction b p rule: relative_segs.induct)
  case (1 a as b bs)
  then show ?case by (cases "a = b") simp_all
next
  case (2 as)
  then show ?case by (cases as) simp_all
next
  case (3 v va)
  then show ?case by simp
qed

lemma joinWith_Cons_nonempty: "x \<noteq> [] \<Longrightarrow> joinWith sep (x # xs) \<noteq> []"
  by (cases xs) simp_all

lemma joinWith_Cons_hd:
  "x \<noteq> [] \<Longrightarrow> hd (joinWith sep (x # xs)) = hd x"
  by (cases xs) simp_all

text \<open>
  Soundness: whatever the check accepts is the base itself or lies below it.
\<close>

lemma isWithinBoundary_sound:
  assumes "isWithinBoundary b p"
  shows "prefix b p"
proof (rule ccontr)
  assume "\<not> prefix b p"
  then obtain xs where xs: "relative_segs b p = ''..'' # xs"
    using relative_segs_not_prefix by blast
  have "startsWith (relative b p) ''..''"
    by (simp add: relative_def xs startsWith_joinWith_dotdot)
  moreover have "relative b p \<noteq> []"
    by (simp add: relative_def xs joinWith_Cons_nonempty)
  ultimately show False
    using assms by (simp add: isWithinBoundary_def Let_def)
qed

lemma valid_segment_hd:
  "valid_segment f \<Longrightarrow> f \<noteq> [] \<and> hd f \<noteq> CHR ''/''"
  by (cases f) (auto simp: valid_segment_def)

lemma startsWith_joinWith_Cons:
  assumes "x \<noteq> []"
  shows "startsWith (joinWith ''/'' (x # xs)) ''..'' = startsWith x ''..''"
proof (cases xs)
  case Nil
  then show ?thesis by simp
next
  case (Cons y ys)
  obtain c cs where x: "x = c # cs"
    using assms by (cases x) simp_all
  show ?thesis
    by (cases cs) (simp_all add: startsWith_def x Cons)
qed

lemma isWithinBoundary_below:
  assumes "valid_segment s"
  shows "isWithinBoundary b (b @ s # r) = (\<not> startsWith s ''..'')"
proof -
  have ne: "s \<noteq> []" and sl: "hd s \<noteq> CHR ''/''"
    using assms valid_segment_hd by blast+
  have rel: "relative b (b @ s # r) = joinWith ''/'' (s # r)"
    by (simp add: relative_def relative_segs_append)
  have a: "joinWith ''/'' (s # r) \<noteq> []"
    using ne by (rule joinWith_Cons_nonempty)
  have "hd (joinWith ''/'' (s # r)) \<noteq> CHR ''/''"
    using ne sl by (simp add: joinWith_Cons_hd)
  then have b: "\<not> isAbsolute (joinWith ''/'' (s # r))"
    by (cases "joinWith ''/'' (s # r)") (simp_all add: isAbsolute_def)
  have c: "startsWith (joinWith ''/'' (s # r)) ''..'' = startsWith s ''..''"
    using ne by (rule startsWith_joinWith_Cons)
  show ?thesis
    unfolding isWithinBoundary_def Let_def rel using a b c by simp
qed

text \<open>
  What the check computes on a direct child \<open>b @ [f]\<close> of the base: the child is
  accepted exactly when its name does not begin with two dots.
\<close>

lemma isWithinBoundary_child:
  "valid_segment f \<Longrightarrow> isWithinBoundary b (b @ [f]) = (\<not> startsWith f ''..'')"
  by (rule isWithinBoundary_below)

lemma isWithinBoundary_self: "isWithinBoundary b b"
  by (simp add: isWithinBoundary_def relative_def relative_segs_self)

text \<open>
  The exact characterisation on canonical paths: the candidate is the base, or it
  lies below the base and the first segment below the base does not begin with two
  dots.
\<close>

lemma isWithinBoundary_exact:
  assumes "canonical p"
  shows "isWithinBoundary b p =
           (p = b \<or> (\<exists>s r. p = b @ s # r \<and> \<not> startsWith s ''..''))"
proof (cases "prefix b p")
  case False
  then have "\<not> isWithinBoundary b p"
    using isWithinBoundary_sound by blast
  moreover have "p \<noteq> b" and "\<And>s r. p \<noteq> b @ s # r"
    using False by auto
  ultimately show ?thesis by blast
next
  case True
  then obtain r where r: "p = b @ r"
    by (auto simp: prefix_def)
  show ?thesis
  proof (cases r)
    case Nil
    with r show ?thesis by (simp add: isWithinBoundary_self)
  next
    case (Cons s r')
    have "valid_segment s"
      using assms r Cons by (simp add: canonical_def)
    then have "isWithinBoundary b (b @ s # r') = (\<not> startsWith s ''..'')"
      by (rule isWithinBoundary_below)
    then show ?thesis
      using r Cons by simp
  qed
qed

text \<open>
  C2. The claim reads: on canonical paths the check is true if and only if the
  candidate equals the base or is a proper descendant of it. The code tests the
  relative path with \<open>startsWith('..')\<close> on the string, so a descendant whose
  first segment below the base merely begins with two dots is refused. Evaluated
  at the messages directory of a tenant and a file \<open>..x.json\<close> inside it: both
  paths are canonical, the candidate is a proper descendant, and the check
  returns false.
\<close>

theorem isWithinBoundary_rejects_dotdot_name:
  "canonical [''ipc'', ''g'', ''messages'']
   \<and> canonical [''ipc'', ''g'', ''messages'', ''..x.json'']
   \<and> strict_prefix [''ipc'', ''g'', ''messages''] [''ipc'', ''g'', ''messages'', ''..x.json'']
   \<and> relative [''ipc'', ''g'', ''messages''] [''ipc'', ''g'', ''messages'', ''..x.json'']
        = ''..x.json''
   \<and> \<not> isWithinBoundary [''ipc'', ''g'', ''messages'']
          [''ipc'', ''g'', ''messages'', ''..x.json'']"
  by (simp add: canonical_def valid_segment_def isWithinBoundary_def relative_def
      startsWith_def isAbsolute_def)

section \<open>Properties of the command handler\<close>

lemma schedule_task_identity:
  "schedule_task h (data\<lparr>groupFolder := g, chatJid := c\<rparr>) sourceGroup isMain st
     = schedule_task h data sourceGroup isMain st"
  by (simp add: schedule_task_def Let_def
      cong: if_cong option.case_cong next_run_result.case_cong)

lemma on_task_identity:
  "on_task act done denied (data\<lparr>groupFolder := g, chatJid := c\<rparr>) sourceGroup isMain st
     = on_task act done denied data sourceGroup isMain st"
  by (simp add: on_task_def)

lemma register_group_identity:
  "register_group h (data\<lparr>groupFolder := g, chatJid := c\<rparr>) sourceGroup isMain st
     = register_group h data sourceGroup isMain st"
  by (simp add: register_group_def cong: if_cong option.case_cong)

lemma processTaskIpc_identity:
  "processTaskIpc h (data\<lparr>groupFolder := g, chatJid := c\<rparr>) sourceGroup isMain st
     = processTaskIpc h data sourceGroup isMain st"
  by (simp add: processTaskIpc_def schedule_task_identity on_task_identity
      register_group_identity)

text \<open>
  C1. What \<open>processTaskIpc\<close> does depends on the envelope only through the fields
  other than \<open>groupFolder\<close> and \<open>chatJid\<close>, the two fields of its parameter that
  name a sender: two envelopes that differ only there, handled with the same
  \<open>sourceGroup\<close> and \<open>isMain\<close> in the same state, give the same completion and the
  same state, hence the same store calls, the same registrations and the same
  denials in the trace.
\<close>

theorem processTaskIpc_ignores_identity_fields:
  "processTaskIpc h (data\<lparr>groupFolder := ga, chatJid := ca\<rparr>) sourceGroup isMain st
     = processTaskIpc h (data\<lparr>groupFolder := gb, chatJid := cb\<rparr>) sourceGroup isMain st"
  by (simp only: processTaskIpc_identity)

lemma schedule_task_authorized:
  assumes "type data = Some ''schedule_task''"
    and "prompt data = Some p" and "schedule_type data = Some ty"
    and "schedule_value data = Some v" and "targetJid data = Some j"
    and "p \<noteq> []" and "ty \<noteq> []" and "v \<noteq> []" and "j \<noteq> []"
    and "groups st j = Some g" and "isMain \<or> folder_g g = sourceGroup"
  shows "processTaskIpc h data sourceGroup isMain st =
     (case nextRun_of h ty v of
        Rejected msg \<Rightarrow> (Returned, log Warn msg st)
      | Raised e \<Rightarrow> (Threw e, st)
      | NextRun nextRun \<Rightarrow>
          (Returned,
           log Info ''Task created via IPC''
             (createTask
                \<lparr>id_t = new_taskId h, group_folder = folder_g g, chat_jid = j,
                 prompt_t = p, schedule_type_t = ty, schedule_value_t = v,
                 context_mode_t = contextMode_of (context_mode data),
                 next_run = nextRun, status = ''active'',
                 created_at = now_created h\<rparr> st)))"
  using assms by (auto simp: processTaskIpc_def schedule_task_def Let_def)

lemma on_task_denied:
  assumes "taskId data = Some i" and "i \<noteq> []" and "tasks st i = Some t"
    and "\<not> isMain" and "group_folder t \<noteq> sourceGroup"
  shows "on_task act done denied data sourceGroup isMain st = (Returned, log Warn denied st)"
  using assms by (simp add: on_task_def getTaskById_def)

lemma on_task_allowed:
  assumes "taskId data = Some i" and "i \<noteq> []" and "tasks st i = Some t"
    and "isMain \<or> group_folder t = sourceGroup"
  shows "on_task act done denied data sourceGroup isMain st = (Returned, log Info done (act i st))"
  using assms by (auto simp: on_task_def getTaskById_def)

text \<open>
  C4. A pause, resume or cancel command that names an existing task: from a tenant
  that is not main and does not own the task, the command returns with one warning
  logged and nothing else changed, so the store is as before; from main or from
  the owner, pause sets the status to paused, resume sets it to active and
  cancel removes the task.
\<close>

theorem task_commands_owner_or_main:
  assumes "taskId data = Some i" and "i \<noteq> []" and "tasks st i = Some t"
  shows "(\<not> isMain \<and> group_folder t \<noteq> sourceGroup \<longrightarrow>
            processTaskIpc h (data\<lparr>type := Some ''pause_task''\<rparr>) sourceGroup isMain st
              = (Returned, log Warn ''Unauthorized task pause attempt'' st)
          \<and> processTaskIpc h (data\<lparr>type := Some ''resume_task''\<rparr>) sourceGroup isMain st
              = (Returned, log Warn ''Unauthorized task resume attempt'' st)
          \<and> processTaskIpc h (data\<lparr>type := Some ''cancel_task''\<rparr>) sourceGroup isMain st
              = (Returned, log Warn ''Unauthorized task cancel attempt'' st)
          \<and> tasks (log Warn ''Unauthorized task pause attempt'' st) = tasks st
          \<and> tasks (log Warn ''Unauthorized task resume attempt'' st) = tasks st
          \<and> tasks (log Warn ''Unauthorized task cancel attempt'' st) = tasks st)
       \<and> (isMain \<or> group_folder t = sourceGroup \<longrightarrow>
            tasks (snd (processTaskIpc h (data\<lparr>type := Some ''pause_task''\<rparr>)
                     sourceGroup isMain st))
              = (tasks st)(i \<mapsto> t\<lparr>status := ''paused''\<rparr>)
          \<and> tasks (snd (processTaskIpc h (data\<lparr>type := Some ''resume_task''\<rparr>)
                     sourceGroup isMain st))
              = (tasks st)(i \<mapsto> t\<lparr>status := ''active''\<rparr>)
          \<and> tasks (snd (processTaskIpc h (data\<lparr>type := Some ''cancel_task''\<rparr>)
                     sourceGroup isMain st))
              = (tasks st)(i := None))"
proof (intro conjI impI)
  assume d: "\<not> isMain \<and> group_folder t \<noteq> sourceGroup"
  show "processTaskIpc h (data\<lparr>type := Some ''pause_task''\<rparr>) sourceGroup isMain st
          = (Returned, log Warn ''Unauthorized task pause attempt'' st)"
    using assms d by (simp add: processTaskIpc_def on_task_denied)
  show "processTaskIpc h (data\<lparr>type := Some ''resume_task''\<rparr>) sourceGroup isMain st
          = (Returned, log Warn ''Unauthorized task resume attempt'' st)"
    using assms d by (simp add: processTaskIpc_def on_task_denied)
  show "processTaskIpc h (data\<lparr>type := Some ''cancel_task''\<rparr>) sourceGroup isMain st
          = (Returned, log Warn ''Unauthorized task cancel attempt'' st)"
    using assms d by (simp add: processTaskIpc_def on_task_denied)
next
  assume a: "isMain \<or> group_folder t = sourceGroup"
  have p: "taskId (data\<lparr>type := Some ty\<rparr>) = Some i" for ty
    using assms by simp
  show "tasks (snd (processTaskIpc h (data\<lparr>type := Some ''pause_task''\<rparr>) sourceGroup isMain st))
          = (tasks st)(i \<mapsto> t\<lparr>status := ''paused''\<rparr>)"
    using assms a by (simp add: processTaskIpc_def on_task_allowed [OF p] log_def updateTask_def)
  show "tasks (snd (processTaskIpc h (data\<lparr>type := Some ''resume_task''\<rparr>) sourceGroup isMain st))
          = (tasks st)(i \<mapsto> t\<lparr>status := ''active''\<rparr>)"
    using assms a by (simp add: processTaskIpc_def on_task_allowed [OF p] log_def updateTask_def)
  show "tasks (snd (processTaskIpc h (data\<lparr>type := Some ''cancel_task''\<rparr>) sourceGroup isMain st))
          = (tasks st)(i := None)"
    using assms a by (simp add: processTaskIpc_def on_task_allowed [OF p] log_def deleteTask_def)
qed (simp_all add: log_def)


lemma parseInt10_huge: "parseInt10 ''8640000000000000'' = Num 8640000000000000"
  by (simp add: parseInt10_def ws1_def ws2_def ws3_def isDigit_def digitVal_def Let_def
      to_double_def)

lemma parseInt10_examples:
  "parseInt10 ''5000'' = Num 5000 \<and> parseInt10 ''-1'' = Num (- 1) \<and> parseInt10 ''abc'' = NaN"
  by (simp add: parseInt10_def ws1_def ws2_def ws3_def isDigit_def digitVal_def Let_def
      to_double_def negate_def)

text \<open>
  White space beyond ASCII is skipped (here a no-break space and a line
  separator), digits are read up to the first other byte, and an integer above
  \<open>2^53\<close> is rounded to the nearest double.
\<close>

lemma parseInt10_white_space:
  "parseInt10 ([CHR 0xC2, CHR 0xA0] @ ''5000'') = Num 5000
   \<and> parseInt10 (CHR 0xA0 # ''5000'') = Num 5000
   \<and> parseInt10 ([CHR 0xEF, CHR 0xBB, CHR 0xBF] @ ''-7'') = Num (- 7)
   \<and> parseInt10 ([CHR 0xE2, CHR 0x80, CHR 0xA8] @ '' 12px'') = Num 12"
  by (simp add: parseInt10_def ws1_def ws2_def ws3_def isDigit_def digitVal_def Let_def
      to_double_def negate_def)

lemma bit_length_54: "bit_length 9007199254740993 = 54 \<and> bit_length 9007199254740995 = 54"
  by (simp add: bit_length.simps)

lemma parseInt10_rounds:
  "parseInt10 ''9007199254740993'' = Num 9007199254740992
   \<and> parseInt10 ''9007199254740995'' = Num 9007199254740996"
  by (simp add: parseInt10_def ws1_def ws2_def ws3_def isDigit_def digitVal_def Let_def
      to_double_def bit_length_54)

lemma groups0_a: "groups st0 ''jid-a'' = Some (group_in ''alpha'')"
  by (simp add: st0_def groups0_def)

text \<open>
  C8. The claim reads: an authorised interval schedule whose value parses as a
  positive count of milliseconds creates a task with \<open>next_run\<close> the clock plus
  that count. Evaluated at the value \<open>8640000000000000\<close>, sent by the tenant
  alpha for its own channel: the value parses as a positive integer, the sum lies
  beyond the largest time value of a \<open>Date\<close>, \<open>toISOString\<close> throws, and
  \<open>processTaskIpc\<close> leaves by the exception with no task created and nothing
  logged. The lemmas \<open>interval_in_range\<close>, \<open>interval_rejected\<close> and
  \<open>interval_out_of_range\<close> after it give the three outcomes in general.
\<close>

theorem interval_beyond_date_range_throws:
  "parseInt10 ''8640000000000000'' = Num 8640000000000000
   \<and> processTaskIpc host0 (schedule_command ''interval'' ''8640000000000000'') ''alpha'' False st0
       = (Threw RangeError, st0)"
  using schedule_task_authorized [of "schedule_command ''interval'' ''8640000000000000''"
      "''report''" "''interval''" "''8640000000000000''" "''jid-a''" st0 "group_in ''alpha''"
      False "''alpha''" host0]
  by (simp add: parseInt10_huge schedule_command_def no_data_def groups0_a group_in_def
      nextRun_of_def valid_time_def host0_def)

lemma interval_in_range:
  assumes "type data = Some ''schedule_task''"
    and "prompt data = Some p" and "schedule_type data = Some ''interval''"
    and "schedule_value data = Some v" and "targetJid data = Some j"
    and "p \<noteq> []" and "v \<noteq> []" and "j \<noteq> []"
    and "groups st j = Some g" and "isMain \<or> folder_g g = sourceGroup"
    and "parseInt10 v = Num ms" and "0 < ms" and "valid_time (now_interval h + ms)"
  shows "processTaskIpc h data sourceGroup isMain st =
          (Returned,
           log Info ''Task created via IPC''
             (createTask
                \<lparr>id_t = new_taskId h, group_folder = folder_g g, chat_jid = j,
                 prompt_t = p, schedule_type_t = ''interval'', schedule_value_t = v,
                 context_mode_t = contextMode_of (context_mode data),
                 next_run = Some (now_interval h + ms), status = ''active'',
                 created_at = now_created h\<rparr> st))"
  using assms schedule_task_authorized [of data p "''interval''" v j st g isMain sourceGroup h]
  by (simp add: nextRun_of_def)

lemma interval_rejected:
  assumes "type data = Some ''schedule_task''"
    and "prompt data = Some p" and "schedule_type data = Some ''interval''"
    and "schedule_value data = Some v" and "targetJid data = Some j"
    and "p \<noteq> []" and "v \<noteq> []" and "j \<noteq> []"
    and "groups st j = Some g" and "isMain \<or> folder_g g = sourceGroup"
    and "parseInt10 v = NaN \<or> parseInt10 v = NegInfinity
           \<or> (\<exists>ms. parseInt10 v = Num ms \<and> ms \<le> 0)"
  shows "processTaskIpc h data sourceGroup isMain st
           = (Returned, log Warn ''Invalid interval'' st)"
  using assms schedule_task_authorized [of data p "''interval''" v j st g isMain sourceGroup h]
  by (auto simp: nextRun_of_def)

lemma interval_out_of_range:
  assumes "type data = Some ''schedule_task''"
    and "prompt data = Some p" and "schedule_type data = Some ''interval''"
    and "schedule_value data = Some v" and "targetJid data = Some j"
    and "p \<noteq> []" and "v \<noteq> []" and "j \<noteq> []"
    and "groups st j = Some g" and "isMain \<or> folder_g g = sourceGroup"
    and "parseInt10 v = Num ms" and "0 < ms" and "\<not> valid_time (now_interval h + ms)"
  shows "processTaskIpc h data sourceGroup isMain st = (Threw RangeError, st)"
  using assms schedule_task_authorized [of data p "''interval''" v j st g isMain sourceGroup h]
  by (simp add: nextRun_of_def)

text \<open>
  The examples of the specification: \<open>5000\<close> gives a task five seconds after
  the clock reading, \<open>-1\<close> and \<open>abc\<close> are refused.
\<close>

lemma interval_examples:
  "processTaskIpc host0 (schedule_command ''interval'' ''5000'') ''alpha'' False st0
     = (Returned,
        log Info ''Task created via IPC''
          (createTask
             \<lparr>id_t = new_taskId host0, group_folder = ''alpha'', chat_jid = ''jid-a'',
              prompt_t = ''report'', schedule_type_t = ''interval'',
              schedule_value_t = ''5000'', context_mode_t = ''isolated'',
              next_run = Some (1793664000000 + 5000), status = ''active'',
              created_at = 1793664000002\<rparr> st0))
   \<and> processTaskIpc host0 (schedule_command ''interval'' ''-1'') ''alpha'' False st0
     = (Returned, log Warn ''Invalid interval'' st0)
   \<and> processTaskIpc host0 (schedule_command ''interval'' ''abc'') ''alpha'' False st0
     = (Returned, log Warn ''Invalid interval'' st0)"
  using interval_in_range [of "schedule_command ''interval'' ''5000''" "''report''" "''5000''"
      "''jid-a''" st0 "group_in ''alpha''" False "''alpha''" 5000 host0]
    interval_rejected [of "schedule_command ''interval'' ''-1''" "''report''" "''-1''"
      "''jid-a''" st0 "group_in ''alpha''" False "''alpha''" host0]
    interval_rejected [of "schedule_command ''interval'' ''abc''" "''report''" "''abc''"
      "''jid-a''" st0 "group_in ''alpha''" False "''alpha''" host0]
  by (simp add: schedule_command_def no_data_def groups0_a group_in_def host0_def
      contextMode_of_def parseInt10_examples valid_time_def)

text \<open>
  C9. An authorised schedule of type once whose value parses as a date creates a
  task whose \<open>next_run\<close> is that timestamp, whatever the clock reads; a value that
  does not parse is refused with a warning and the state is otherwise as before.
\<close>

theorem once_schedule:
  assumes "type data = Some ''schedule_task''"
    and "prompt data = Some p" and "schedule_type data = Some ''once''"
    and "schedule_value data = Some v" and "targetJid data = Some j"
    and "p \<noteq> []" and "v \<noteq> []" and "j \<noteq> []"
    and "groups st j = Some g" and "isMain \<or> folder_g g = sourceGroup"
  shows "processTaskIpc h data sourceGroup isMain st =
          (case Date_parse h v of
             Some timestamp \<Rightarrow>
               (Returned,
                log Info ''Task created via IPC''
                  (createTask
                     \<lparr>id_t = new_taskId h, group_folder = folder_g g, chat_jid = j,
                      prompt_t = p, schedule_type_t = ''once'', schedule_value_t = v,
                      context_mode_t = contextMode_of (context_mode data),
                      next_run = Some timestamp, status = ''active'',
                      created_at = now_created h\<rparr> st))
           | None \<Rightarrow> (Returned, log Warn ''Invalid timestamp'' st))"
  using assms schedule_task_authorized [of data p "''once''" v j st g isMain sourceGroup h]
  by (simp add: nextRun_of_def split: option.splits)

text \<open>
  C10. An authorised schedule whose type is none of cron, interval and once, with
  all four fields present and the target registered, creates a task that carries
  the type as given and has no \<open>next_run\<close>.
\<close>

theorem unknown_schedule_type_creates_task:
  assumes "type data = Some ''schedule_task''"
    and "prompt data = Some p" and "schedule_type data = Some ty"
    and "schedule_value data = Some v" and "targetJid data = Some j"
    and "p \<noteq> []" and "ty \<noteq> []" and "v \<noteq> []" and "j \<noteq> []"
    and "groups st j = Some g" and "isMain \<or> folder_g g = sourceGroup"
    and "ty \<noteq> ''cron''" and "ty \<noteq> ''interval''" and "ty \<noteq> ''once''"
  shows "processTaskIpc h data sourceGroup isMain st =
          (Returned,
           log Info ''Task created via IPC''
             (createTask
                \<lparr>id_t = new_taskId h, group_folder = folder_g g, chat_jid = j,
                 prompt_t = p, schedule_type_t = ty, schedule_value_t = v,
                 context_mode_t = contextMode_of (context_mode data),
                 next_run = None, status = ''active'',
                 created_at = now_created h\<rparr> st))"
  using assms schedule_task_authorized [of data p ty v j st g isMain sourceGroup h]
  by (simp add: nextRun_of_def)


theorem once_schedule_witness:
  "processTaskIpc host0 (schedule_command ''once'' ''2020-01-01T00:00:00Z'') ''alpha'' False st0
     = (Returned,
        log Info ''Task created via IPC''
          (createTask
             \<lparr>id_t = new_taskId host0, group_folder = ''alpha'', chat_jid = ''jid-a'',
              prompt_t = ''report'', schedule_type_t = ''once'',
              schedule_value_t = ''2020-01-01T00:00:00Z'', context_mode_t = ''isolated'',
              next_run = Some 1577836800000, status = ''active'',
              created_at = 1793664000002\<rparr> st0))
   \<and> 1577836800000 < now_created host0
   \<and> processTaskIpc host0 (schedule_command ''once'' ''soon'') ''alpha'' False st0
     = (Returned, log Warn ''Invalid timestamp'' st0)"
  using once_schedule [of "schedule_command ''once'' ''2020-01-01T00:00:00Z''" "''report''"
      "''2020-01-01T00:00:00Z''" "''jid-a''" st0 "group_in ''alpha''" False "''alpha''" host0]
    once_schedule [of "schedule_command ''once'' ''soon''" "''report''"
      "''soon''" "''jid-a''" st0 "group_in ''alpha''" False "''alpha''" host0]
  by (simp add: schedule_command_def no_data_def groups0_a group_in_def date0_def host0_def
      contextMode_of_def)

theorem unknown_schedule_type_witness:
  "processTaskIpc host0 (schedule_command ''weekly'' ''5000'') ''beta'' True st0
     = (Returned,
        log Info ''Task created via IPC''
          (createTask
             \<lparr>id_t = new_taskId host0, group_folder = ''alpha'', chat_jid = ''jid-a'',
              prompt_t = ''report'', schedule_type_t = ''weekly'',
              schedule_value_t = ''5000'', context_mode_t = ''isolated'',
              next_run = None, status = ''active'',
              created_at = 1793664000002\<rparr> st0))"
  using unknown_schedule_type_creates_task [of "schedule_command ''weekly'' ''5000''"
      "''report''" "''weekly''" "''5000''" "''jid-a''" st0 "group_in ''alpha''" True "''beta''"
      host0]
  by (simp add: schedule_command_def no_data_def groups0_a group_in_def host0_def
      contextMode_of_def)

lemma tasks0_1: "tasks st0 ''task-1'' = Some task0"
  by (simp add: st0_def)

theorem task_commands_witness:
  "processTaskIpc host0 (task_command ''pause_task'') ''beta'' False st0
     = (Returned, log Warn ''Unauthorized task pause attempt'' st0)
   \<and> processTaskIpc host0 (task_command ''cancel_task'') ''beta'' False st0
     = (Returned, log Warn ''Unauthorized task cancel attempt'' st0)
   \<and> tasks (snd (processTaskIpc host0 (task_command ''pause_task'') ''alpha'' False st0))
       ''task-1'' = Some (task0\<lparr>status := ''paused''\<rparr>)
   \<and> tasks (snd (processTaskIpc host0 (task_command ''cancel_task'') ''main'' True st0))
       ''task-1'' = None"
  using task_commands_owner_or_main [of "task_command ''pause_task''" "''task-1''" st0 task0
      False "''beta''" host0]
    task_commands_owner_or_main [of "task_command ''pause_task''" "''task-1''" st0 task0
      False "''alpha''" host0]
    task_commands_owner_or_main [of "task_command ''pause_task''" "''task-1''" st0 task0
      True "''main''" host0]
  by (simp add: task_command_def no_data_def tasks0_1 task0_def)

theorem identity_fields_witness:
  "processTaskIpc host0 ((task_command ''cancel_task'')\<lparr>groupFolder := Some ''alpha''\<rparr>)
       ''beta'' False st0
     = processTaskIpc host0 ((task_command ''cancel_task'')\<lparr>groupFolder := Some ''beta''\<rparr>)
       ''beta'' False st0"
  using processTaskIpc_ignores_identity_fields [where h = host0
      and data = "task_command ''cancel_task''" and ga = "Some ''alpha''" and ca = None
      and gb = "Some ''beta''" and cb = None and sourceGroup = "''beta''" and isMain = False
      and st = st0]
  by (simp add: task_command_def no_data_def)

text \<open>
  C7. A register_group command: when the source is not main, or one of jid, name,
  folder and trigger is missing or empty, or the folder fails the validator, the
  command returns with one warning logged and the registry is as before; when
  the source is main, the four fields are present and the folder passes the
  validator, \<open>registerGroup\<close> is called for that jid with the group built from
  the envelope.
\<close>

theorem register_group_gate:
  "(\<not> isMain \<or> \<not> truthy (jid data) \<or> \<not> truthy (name data) \<or> \<not> truthy (folder data)
      \<or> \<not> truthy (trigger data) \<or> (\<exists>f. folder data = Some f \<and> \<not> isValidGroupFolder h f)
     \<longrightarrow> (\<exists>m. processTaskIpc h (data\<lparr>type := Some ''register_group''\<rparr>) sourceGroup isMain st
                = (Returned, log Warn m st))
         \<and> groups (snd (processTaskIpc h (data\<lparr>type := Some ''register_group''\<rparr>)
                      sourceGroup isMain st)) = groups st)
   \<and> (isMain \<and> jid data = Some j \<and> name data = Some n \<and> folder data = Some f
        \<and> trigger data = Some t \<and> j \<noteq> [] \<and> n \<noteq> [] \<and> f \<noteq> [] \<and> t \<noteq> []
        \<and> isValidGroupFolder h f
     \<longrightarrow> processTaskIpc h (data\<lparr>type := Some ''register_group''\<rparr>) sourceGroup isMain st
           = (Returned,
              registerGroup j
                \<lparr>name_g = n, folder_g = f, trigger_g = t, added_at = now_added h,
                 containerConfig_g = containerConfig data,
                 requiresTrigger_g = requiresTrigger data\<rparr> st))"
  by (auto simp: processTaskIpc_def register_group_def truthy_def log_def
      split: option.splits)


theorem register_group_witness:
  "groups (snd (processTaskIpc host0 (register_command ''../escape'') ''main'' True st0))
     = groups st0
   \<and> groups (snd (processTaskIpc host0 (register_command ''gamma'') ''beta'' False st0))
     = groups st0
   \<and> processTaskIpc host0 (register_command ''gamma'') ''main'' True st0
     = (Returned,
        registerGroup ''jid-c''
          \<lparr>name_g = ''Gamma'', folder_g = ''gamma'', trigger_g = ''@bot'',
           added_at = 1793664000003, containerConfig_g = None,
           requiresTrigger_g = None\<rparr> st0)"
  using register_group_gate [where h = host0 and data = "register_command ''../escape''"
      and sourceGroup = "''main''" and isMain = True and st = st0]
    register_group_gate [where h = host0 and data = "register_command ''gamma''"
      and sourceGroup = "''beta''" and isMain = False and st = st0]
    register_group_gate [where h = host0 and data = "register_command ''gamma''"
      and sourceGroup = "''main''" and isMain = True and st = st0 and j = "''jid-c''"
      and n = "''Gamma''" and f = "''gamma''" and t = "''@bot''"]
  by (simp add: register_command_def no_data_def host0_def allowlisted_def isDigit_def
      truthy_def)

section \<open>Properties of the file loops\<close>

lemma sends_append: "sends (xs @ ys) = sends xs @ sends ys"
  by (induction xs rule: sends.induct) simp_all

lemma resolve_File: "0 < k \<Longrightarrow> f p = Some (File c) \<Longrightarrow> resolve k f p = Inr p"
  by (cases k) simp_all

lemma realpathSync_File: "fs st p = Some (File c) \<Longrightarrow> realpathSync st p = Inr p"
  by (simp add: realpathSync_def resolve_File)

lemma readFileSync_File: "fs st p = Some (File c) \<Longrightarrow> readFileSync st p = Inr c"
  by (simp add: readFileSync_def realpathSync_File)

lemma unlinkSync_File:
  "fs st p = Some (File c) \<Longrightarrow> unlinkSync st p = Inr (st\<lparr>fs := (fs st)(p := None)\<rparr>)"
  by (simp add: unlinkSync_def)

lemma fs_log: "fs (log l m st) = fs st"
  by (simp add: log_def)

lemma forward_fs: "fs (snd (forward h data T m rg st)) = fs st"
  by (simp add: forward_def Let_def log_def split: option.splits)

lemma forward_completion:
  "fst (forward h data T m rg st) = Returned
   \<or> fst (forward h data T m rg st) = Threw SendRejected"
  by (simp add: forward_def Let_def split: option.splits)

lemma schedule_task_fs: "fs (snd (schedule_task h data T m st)) = fs st"
  by (simp add: schedule_task_def Let_def log_def createTask_def
      split: option.splits next_run_result.splits)

lemma on_task_fs:
  assumes "\<And>i s. fs (act i s) = fs s"
  shows "fs (snd (on_task act done denied data T m st)) = fs st"
  using assms by (simp add: on_task_def log_def split: option.splits)

lemma register_group_fs: "fs (snd (register_group h data T m st)) = fs st"
  by (simp add: register_group_def log_def registerGroup_def split: option.splits)

lemma processTaskIpc_fs: "fs (snd (processTaskIpc h data T m st)) = fs st"
  by (simp add: processTaskIpc_def schedule_task_fs on_task_fs register_group_fs
      updateTask_def deleteTask_def refresh_groups_def log_def)

lemma nextRun_of_Raised: "nextRun_of h ty v = Raised e \<Longrightarrow> e = RangeError"
  by (auto simp: nextRun_of_def split: if_splits option.splits jsnumber.splits)

lemma schedule_task_completion:
  "fst (schedule_task h data T m st) = Returned
   \<or> fst (schedule_task h data T m st) = Threw RangeError"
  by (auto simp: schedule_task_def Let_def
      split: option.splits next_run_result.splits dest: nextRun_of_Raised)

lemma processTaskIpc_completion:
  "fst (processTaskIpc h data T m st) = Returned
   \<or> fst (processTaskIpc h data T m st) = Threw RangeError"
  using schedule_task_completion [of h data T m st]
  by (auto simp: processTaskIpc_def on_task_def register_group_def refresh_groups_def
      split: option.splits)


lemma tryMessageFile_regular:
  assumes "fs st (dir @ [file]) = Some (File content)"
    and "isWithinBoundary dir (dir @ [file])"
  shows "tryMessageFile h T m rg dir file st =
     (case JSON_parse h content of
        None \<Rightarrow> (Threw SyntaxError, st\<lparr>trace := trace st @ [ReadFile (dir @ [file])]\<rparr>)
      | Some data \<Rightarrow>
          (case forward h data T m rg (st\<lparr>trace := trace st @ [ReadFile (dir @ [file])]\<rparr>) of
             (Threw e, st2) \<Rightarrow> (Threw e, st2)
           | (_, st2) \<Rightarrow> (Returned, st2\<lparr>fs := (fs st2)(dir @ [file] := None)\<rparr>)))"
proof (cases "JSON_parse h content")
  case None
  then show ?thesis
    using assms
    by (simp add: tryMessageFile_def lstatSync_def isFile_def isSymbolicLink_def
        realpathSync_File readFileSync_File Let_def)
next
  case (Some data)
  let ?st1 = "st\<lparr>trace := trace st @ [ReadFile (dir @ [file])]\<rparr>"
  obtain c st2 where f: "forward h data T m rg ?st1 = (c, st2)"
    by (cases "forward h data T m rg ?st1")
  have "fs st2 = fs ?st1"
    using forward_fs [of h data T m rg ?st1] f by simp
  then have "fs st2 (dir @ [file]) = Some (File content)"
    using assms by simp
  then have u: "unlinkSync st2 (dir @ [file]) = Inr (st2\<lparr>fs := (fs st2)(dir @ [file] := None)\<rparr>)"
    by (rule unlinkSync_File)
  show ?thesis
    using assms Some f u
    by (simp add: tryMessageFile_def lstatSync_def isFile_def isSymbolicLink_def
        realpathSync_File readFileSync_File Let_def split: completion.splits)
qed

lemma tryTaskFile_regular:
  assumes "fs st (dir @ [file]) = Some (File content)"
    and "isWithinBoundary dir (dir @ [file])"
  shows "tryTaskFile h T m dir file st =
     (case JSON_parse h content of
        None \<Rightarrow> (Threw SyntaxError, st\<lparr>trace := trace st @ [ReadFile (dir @ [file])]\<rparr>)
      | Some data \<Rightarrow>
          (case processTaskIpc h data T m (st\<lparr>trace := trace st @ [ReadFile (dir @ [file])]\<rparr>) of
             (Threw e, st2) \<Rightarrow> (Threw e, st2)
           | (_, st2) \<Rightarrow> (Returned, st2\<lparr>fs := (fs st2)(dir @ [file] := None)\<rparr>)))"
proof (cases "JSON_parse h content")
  case None
  then show ?thesis
    using assms
    by (simp add: tryTaskFile_def lstatSync_def isFile_def isSymbolicLink_def
        realpathSync_File readFileSync_File Let_def)
next
  case (Some data)
  let ?st1 = "st\<lparr>trace := trace st @ [ReadFile (dir @ [file])]\<rparr>"
  obtain c st2 where f: "processTaskIpc h data T m ?st1 = (c, st2)"
    by (cases "processTaskIpc h data T m ?st1")
  have "fs st2 = fs ?st1"
    using processTaskIpc_fs [of h data T m ?st1] f by simp
  then have "fs st2 (dir @ [file]) = Some (File content)"
    using assms by simp
  then have u: "unlinkSync st2 (dir @ [file]) = Inr (st2\<lparr>fs := (fs st2)(dir @ [file] := None)\<rparr>)"
    by (rule unlinkSync_File)
  show ?thesis
    using assms Some f u
    by (simp add: tryTaskFile_def lstatSync_def isFile_def isSymbolicLink_def
        realpathSync_File readFileSync_File Let_def split: completion.splits)
qed

lemma quarantine_name_differs: "dir @ [file] \<noteq> errDir @ [T @ ''-'' @ file]"
proof
  assume "dir @ [file] = errDir @ [T @ ''-'' @ file]"
  then have "last (dir @ [file]) = last (errDir @ [T @ ''-'' @ file])" by simp
  then have "length file = length (T @ ''-'' @ file)" by simp
  then show False by simp
qed

lemma safeMoveToErrorDir_regular:
  assumes "fs st (dir @ [file]) = Some (File content)"
    and "isWithinBoundary dir (dir @ [file])"
  shows "safeMoveToErrorDir h (dir @ [file]) T file dir errDir st =
     (if length (T @ ''-'' @ file) \<le> NAME_MAX h \<and> fs st errDir = Some Dir
         \<and> \<not> rename_refused h (dir @ [file]) (errDir @ [T @ ''-'' @ file])
         \<and> fs st (errDir @ [T @ ''-'' @ file]) \<noteq> Some Dir
      then st\<lparr>fs := ((fs st)(dir @ [file] := None))
                       (errDir @ [T @ ''-'' @ file] \<mapsto> File content)\<rparr>
      else log Error ''Failed to move IPC file to errors directory'' st)"
  using assms quarantine_name_differs [of dir "file" errDir T]
  by (auto simp: safeMoveToErrorDir_def realpathSync_File renameSync_def
      split: option.splits node.splits)

lemma forward_message:
  assumes "type data = Some ''message''" and "chatJid data = Some j"
    and "text_m data = Some t" and "j \<noteq> []" and "t \<noteq> []"
  shows "forward h data T m rg st =
     (if m \<or> (\<exists>g. rg j = Some g \<and> folder_g g = T) then
        (if sendMessage_rejects h j t
         then (Threw SendRejected, st\<lparr>trace := trace st @ [SendMessage j t]\<rparr>)
         else (Returned,
               log Info ''IPC message sent'' (st\<lparr>trace := trace st @ [SendMessage j t]\<rparr>)))
      else (Returned, log Warn ''Unauthorized IPC message attempt blocked'' st))"
  using assms by (auto simp: forward_def Let_def split: option.splits)

lemma non_regular_message:
  assumes "fs st (dir @ [file]) = Some n" and "\<not> isFile n \<or> isSymbolicLink n"
  shows "tryMessageFile h T m rg dir file st
           = (Skipped, log Warn ''Rejected non-regular IPC message file'' st)"
  using assms by (auto simp: tryMessageFile_def lstatSync_def)

lemma non_regular_task:
  assumes "fs st (dir @ [file]) = Some n" and "\<not> isFile n \<or> isSymbolicLink n"
  shows "tryTaskFile h T m dir file st
           = (Skipped, log Warn ''Rejected non-regular IPC task file'' st)"
  using assms by (auto simp: tryTaskFile_def lstatSync_def)

text \<open>
  C6. An entry of the messages or the tasks directory that the un-followed stat
  shows as a symbolic link, or as anything but a regular file, ends the turn of
  the loop at the \<open>continue\<close>: the state is the one before with one warning
  logged, so the entry was not read, parsed, forwarded or dispatched, and it
  was neither deleted nor moved, wherever a link points.
\<close>

theorem non_regular_entry_skipped:
  assumes "fs st (dir @ [file]) = Some n" and "\<not> isFile n \<or> isSymbolicLink n"
  shows "tryMessageFile h T m rg dir file st
           = (Skipped, log Warn ''Rejected non-regular IPC message file'' st)
       \<and> processMessageFile h T m rg dir errDir file st
           = log Warn ''Rejected non-regular IPC message file'' st
       \<and> tryTaskFile h T m dir file st
           = (Skipped, log Warn ''Rejected non-regular IPC task file'' st)
       \<and> processTaskFile h T m dir errDir file st
           = log Warn ''Rejected non-regular IPC task file'' st"
  using non_regular_message [OF assms] non_regular_task [OF assms]
  by (simp add: processMessageFile_def processTaskFile_def)

lemma processMessageFile_regular:
  assumes reg: "fs st (dir @ [file]) = Some (File content)"
    and inb: "isWithinBoundary dir (dir @ [file])"
    and c: "tryMessageFile h T m rg dir file st = (c, st2)"
    and f: "fs st2 = fs st"
  shows "processMessageFile h T m rg dir errDir file st =
     (case c of
        Threw e \<Rightarrow>
          (if length (T @ ''-'' @ file) \<le> NAME_MAX h \<and> fs st errDir = Some Dir
              \<and> \<not> rename_refused h (dir @ [file]) (errDir @ [T @ ''-'' @ file])
              \<and> fs st (errDir @ [T @ ''-'' @ file]) \<noteq> Some Dir
           then (log Error ''Error processing IPC message'' st2)
                  \<lparr>fs := ((fs st)(dir @ [file] := None))
                           (errDir @ [T @ ''-'' @ file] \<mapsto> File content)\<rparr>
           else log Error ''Failed to move IPC file to errors directory''
                  (log Error ''Error processing IPC message'' st2))
      | _ \<Rightarrow> st2)"
proof (cases c)
  case (Threw e)
  let ?s = "log Error ''Error processing IPC message'' st2"
  have "fs ?s (dir @ [file]) = Some (File content)"
    using reg f by (simp add: fs_log)
  from safeMoveToErrorDir_regular [OF this inb, of h T errDir]
  show ?thesis
    using Threw c f by (simp add: processMessageFile_def fs_log)
qed (simp_all add: processMessageFile_def c)

lemma processTaskFile_regular:
  assumes reg: "fs st (dir @ [file]) = Some (File content)"
    and inb: "isWithinBoundary dir (dir @ [file])"
    and c: "tryTaskFile h T m dir file st = (c, st2)"
    and f: "fs st2 = fs st"
  shows "processTaskFile h T m dir errDir file st =
     (case c of
        Threw e \<Rightarrow>
          (if length (T @ ''-'' @ file) \<le> NAME_MAX h \<and> fs st errDir = Some Dir
              \<and> \<not> rename_refused h (dir @ [file]) (errDir @ [T @ ''-'' @ file])
              \<and> fs st (errDir @ [T @ ''-'' @ file]) \<noteq> Some Dir
           then (log Error ''Error processing IPC task'' st2)
                  \<lparr>fs := ((fs st)(dir @ [file] := None))
                           (errDir @ [T @ ''-'' @ file] \<mapsto> File content)\<rparr>
           else log Error ''Failed to move IPC file to errors directory''
                  (log Error ''Error processing IPC task'' st2))
      | _ \<Rightarrow> st2)"
proof (cases c)
  case (Threw e)
  let ?s = "log Error ''Error processing IPC task'' st2"
  have "fs ?s (dir @ [file]) = Some (File content)"
    using reg f by (simp add: fs_log)
  from safeMoveToErrorDir_regular [OF this inb, of h T errDir]
  show ?thesis
    using Threw c f by (simp add: processTaskFile_def fs_log)
qed (simp_all add: processTaskFile_def c)


text \<open>
  C3, as amended. A message envelope whose chatJid and text are present and not
  empty, read from a regular file of the messages directory of tenant \<open>T\<close> that
  passes the boundary check, with \<open>isMain\<close> as line 70 computes it:
  \<open>sendMessage\<close> is called once with the channel and the text when \<open>T\<close> is main
  or the channel is registered with folder \<open>T\<close>, and is not called otherwise; in
  that case the turn logs the warning of the blocked attempt, deletes the file
  and changes nothing else.
\<close>

theorem message_authorization:
  assumes reg: "fs st (dir @ [file]) = Some (File content)"
    and inb: "isWithinBoundary dir (dir @ [file])"
    and parse: "JSON_parse h content = Some data"
    and msg: "type data = Some ''message''" "chatJid data = Some j" "text_m data = Some t"
      "j \<noteq> []" "t \<noteq> []"
  shows "let isMain = (T = MAIN_GROUP_FOLDER h);
             allowed = (isMain \<or> (\<exists>g. rg j = Some g \<and> folder_g g = T));
             st' = processMessageFile h T isMain rg dir errDir file st
         in sends (trace st') = sends (trace st) @ (if allowed then [(j, t)] else [])
          \<and> (\<not> allowed \<longrightarrow>
               st' = st\<lparr>trace := trace st @
                           [ReadFile (dir @ [file]),
                            Log Warn ''Unauthorized IPC message attempt blocked''],
                         fs := (fs st)(dir @ [file] := None)\<rparr>)"
proof -
  let ?m = "T = MAIN_GROUP_FOLDER h"
  let ?st1 = "st\<lparr>trace := trace st @ [ReadFile (dir @ [file])]\<rparr>"
  let ?sent = "?st1\<lparr>trace := trace ?st1 @ [SendMessage j t]\<rparr>"
  define allowed where "allowed = (?m \<or> (\<exists>g. rg j = Some g \<and> folder_g g = T))"
  have fw: "forward h data T ?m rg ?st1 =
      (if allowed then
         (if sendMessage_rejects h j t then (Threw SendRejected, ?sent)
          else (Returned, log Info ''IPC message sent'' ?sent))
       else (Returned, log Warn ''Unauthorized IPC message attempt blocked'' ?st1))"
    unfolding allowed_def by (rule forward_message [OF msg])
  have tr: "tryMessageFile h T ?m rg dir file st =
      (case forward h data T ?m rg ?st1 of
         (Threw e, st2) \<Rightarrow> (Threw e, st2)
       | (_, st2) \<Rightarrow> (Returned, st2\<lparr>fs := (fs st2)(dir @ [file] := None)\<rparr>))"
    using tryMessageFile_regular [OF reg inb, of h T ?m rg] parse by simp
  have main: "sends (trace (processMessageFile h T ?m rg dir errDir file st))
                = sends (trace st) @ (if allowed then [(j, t)] else [])
      \<and> (\<not> allowed \<longrightarrow>
           processMessageFile h T ?m rg dir errDir file st
             = st\<lparr>trace := trace st @
                      [ReadFile (dir @ [file]),
                       Log Warn ''Unauthorized IPC message attempt blocked''],
                    fs := (fs st)(dir @ [file] := None)\<rparr>)"
  proof (cases allowed)
    case False
    have t: "tryMessageFile h T ?m rg dir file st =
        (Returned, (log Warn ''Unauthorized IPC message attempt blocked'' ?st1)
                      \<lparr>fs := (fs st)(dir @ [file] := None)\<rparr>)"
      unfolding tr fw using False by (simp add: log_def)
    have "processMessageFile h T ?m rg dir errDir file st =
        (log Warn ''Unauthorized IPC message attempt blocked'' ?st1)
           \<lparr>fs := (fs st)(dir @ [file] := None)\<rparr>"
      by (simp add: processMessageFile_def t)
    then show ?thesis
      using False by (simp add: log_def sends_append)
  next
    case True
    show ?thesis
    proof (cases "sendMessage_rejects h j t")
      case False
      have t: "tryMessageFile h T ?m rg dir file st =
          (Returned, (log Info ''IPC message sent'' ?sent)
                        \<lparr>fs := (fs st)(dir @ [file] := None)\<rparr>)"
        unfolding tr fw using True False by (simp add: log_def)
      have "processMessageFile h T ?m rg dir errDir file st =
          (log Info ''IPC message sent'' ?sent)\<lparr>fs := (fs st)(dir @ [file] := None)\<rparr>"
        by (simp add: processMessageFile_def t)
      then show ?thesis
        using True by (simp add: log_def sends_append)
    next
      case rej: True
      have t: "tryMessageFile h T ?m rg dir file st = (Threw SendRejected, ?sent)"
        unfolding tr fw using True rej by simp
      have f: "fs ?sent = fs st" by simp
      have "sends (trace (processMessageFile h T ?m rg dir errDir file st))
              = sends (trace ?sent)"
        using processMessageFile_regular [OF reg inb t f, of errDir]
        by (simp add: log_def sends_append)
      then show ?thesis
        using True by (simp add: sends_append)
    qed
  qed
  show ?thesis
    unfolding Let_def using main unfolding allowed_def by blast
qed

lemma message_file_outcome:
  assumes reg: "fs st (dir @ [file]) = Some (File content)"
    and inb: "isWithinBoundary dir (dir @ [file])"
  shows "\<exists>c st2. tryMessageFile h T m rg dir file st = (c, st2)
      \<and> (c = Returned) =
          (\<not> (case JSON_parse h content of
                 None \<Rightarrow> True
               | Some data \<Rightarrow>
                   fst (forward h data T m rg
                          (st\<lparr>trace := trace st @ [ReadFile (dir @ [file])]\<rparr>)) \<noteq> Returned))
      \<and> processMessageFile h T m rg dir errDir file st =
          (if c = Returned then st2
           else if length (T @ ''-'' @ file) \<le> NAME_MAX h \<and> fs st errDir = Some Dir
                   \<and> \<not> rename_refused h (dir @ [file]) (errDir @ [T @ ''-'' @ file])
                   \<and> fs st (errDir @ [T @ ''-'' @ file]) \<noteq> Some Dir
             then (log Error ''Error processing IPC message'' st2)
                    \<lparr>fs := ((fs st)(dir @ [file] := None))
                             (errDir @ [T @ ''-'' @ file] \<mapsto> File content)\<rparr>
             else log Error ''Failed to move IPC file to errors directory''
                    (log Error ''Error processing IPC message'' st2))
      \<and> fs st2 = (if c = Returned then (fs st)(dir @ [file] := None) else fs st)"
proof -
  let ?p = "dir @ [file]"
  let ?st1 = "st\<lparr>trace := trace st @ [ReadFile ?p]\<rparr>"
  show ?thesis
  proof (cases "JSON_parse h content")
    case None
    have t: "tryMessageFile h T m rg dir file st = (Threw SyntaxError, ?st1)"
      using tryMessageFile_regular [OF reg inb, of h T m rg] None by simp
    have f: "fs ?st1 = fs st" by simp
    show ?thesis
      using processMessageFile_regular [OF reg inb t f, of errDir] None t by simp
  next
    case (Some data)
    obtain c st2 where fw: "forward h data T m rg ?st1 = (c, st2)"
      by (cases "forward h data T m rg ?st1")
    have f2: "fs st2 = fs st"
      using forward_fs [of h data T m rg ?st1] fw by simp
    from forward_completion [of h data T m rg ?st1] fw
    consider "c = Returned" | "c = Threw SendRejected" by auto
    then show ?thesis
    proof cases
      case 1
      have t: "tryMessageFile h T m rg dir file st
                 = (Returned, st2\<lparr>fs := (fs st2)(?p := None)\<rparr>)"
        using tryMessageFile_regular [OF reg inb, of h T m rg] Some fw 1 by simp
      show ?thesis
        using Some fw 1 f2 by (simp add: processMessageFile_def t)
    next
      case 2
      have t: "tryMessageFile h T m rg dir file st = (Threw SendRejected, st2)"
        using tryMessageFile_regular [OF reg inb, of h T m rg] Some fw 2 by simp
      show ?thesis
        using processMessageFile_regular [OF reg inb t f2, of errDir] Some fw 2 t f2
        by simp
    qed
  qed
qed

lemma task_file_outcome:
  assumes reg: "fs st (dir @ [file]) = Some (File content)"
    and inb: "isWithinBoundary dir (dir @ [file])"
  shows "\<exists>c st2. tryTaskFile h T m dir file st = (c, st2)
      \<and> (c = Returned) =
          (\<not> (case JSON_parse h content of
                 None \<Rightarrow> True
               | Some data \<Rightarrow>
                   fst (processTaskIpc h data T m
                          (st\<lparr>trace := trace st @ [ReadFile (dir @ [file])]\<rparr>)) \<noteq> Returned))
      \<and> processTaskFile h T m dir errDir file st =
          (if c = Returned then st2
           else if length (T @ ''-'' @ file) \<le> NAME_MAX h \<and> fs st errDir = Some Dir
                   \<and> \<not> rename_refused h (dir @ [file]) (errDir @ [T @ ''-'' @ file])
                   \<and> fs st (errDir @ [T @ ''-'' @ file]) \<noteq> Some Dir
             then (log Error ''Error processing IPC task'' st2)
                    \<lparr>fs := ((fs st)(dir @ [file] := None))
                             (errDir @ [T @ ''-'' @ file] \<mapsto> File content)\<rparr>
             else log Error ''Failed to move IPC file to errors directory''
                    (log Error ''Error processing IPC task'' st2))
      \<and> fs st2 = (if c = Returned then (fs st)(dir @ [file] := None) else fs st)"
proof -
  let ?p = "dir @ [file]"
  let ?st1 = "st\<lparr>trace := trace st @ [ReadFile ?p]\<rparr>"
  show ?thesis
  proof (cases "JSON_parse h content")
    case None
    have t: "tryTaskFile h T m dir file st = (Threw SyntaxError, ?st1)"
      using tryTaskFile_regular [OF reg inb, of h T m] None by simp
    have f: "fs ?st1 = fs st" by simp
    show ?thesis
      using processTaskFile_regular [OF reg inb t f, of errDir] None t by simp
  next
    case (Some data)
    obtain c st2 where fw: "processTaskIpc h data T m ?st1 = (c, st2)"
      by (cases "processTaskIpc h data T m ?st1")
    have f2: "fs st2 = fs st"
      using processTaskIpc_fs [of h data T m ?st1] fw by simp
    from processTaskIpc_completion [of h data T m ?st1] fw
    consider "c = Returned" | "c = Threw RangeError" by auto
    then show ?thesis
    proof cases
      case 1
      have t: "tryTaskFile h T m dir file st
                 = (Returned, st2\<lparr>fs := (fs st2)(?p := None)\<rparr>)"
        using tryTaskFile_regular [OF reg inb, of h T m] Some fw 1 by simp
      show ?thesis
        using Some fw 1 f2 by (simp add: processTaskFile_def t)
    next
      case 2
      have t: "tryTaskFile h T m dir file st = (Threw RangeError, st2)"
        using tryTaskFile_regular [OF reg inb, of h T m] Some fw 2 by simp
      show ?thesis
        using processTaskFile_regular [OF reg inb t f2, of errDir] Some fw 2 t f2
        by simp
    qed
  qed
qed

text \<open>
  C5, as amended. For every entry of the messages or of the tasks directory, in
  one turn of the loop. The place in quarantine differs from the entry. If the
  entry is a regular file and passes the boundary check: the body of the \<open>try\<close>
  ends normally exactly when the content parses and the handling of the envelope
  does not throw, and then the file is deleted and nothing else of the file
  system changes; when it throws, the loop logs the error and the file is moved
  to \<open>errDir/T-file\<close> if the rename succeeds, that is, if that name is not longer
  than \<open>NAME_MAX\<close>, the quarantine directory exists, the operating system does not
  refuse and no directory stands at that name; if the rename fails, the failure
  is logged as well and the file system is as before. If the un-followed stat
  shows anything but a regular file, the entry is skipped with a warning and the
  state is otherwise as before.
\<close>

theorem entry_consumed_or_skipped:
  "let p = dir @ [entry];
       q = errDir @ [T @ ''-'' @ entry];
       st1 = st\<lparr>trace := trace st @ [ReadFile p]\<rparr>;
       thrown_m = (case JSON_parse h content of
                     None \<Rightarrow> True
                   | Some data \<Rightarrow> fst (forward h data T m rg st1) \<noteq> Returned);
       thrown_t = (case JSON_parse h content of
                     None \<Rightarrow> True
                   | Some data \<Rightarrow> fst (processTaskIpc h data T m st1) \<noteq> Returned);
       movable = (length (T @ ''-'' @ entry) \<le> NAME_MAX h \<and> fs st errDir = Some Dir
                  \<and> \<not> rename_refused h p q \<and> fs st q \<noteq> Some Dir);
       moved = ((fs st)(p := None))(q \<mapsto> File content);
       failed = Log Error ''Failed to move IPC file to errors directory'';
       tm = tryMessageFile h T m rg dir entry st;
       pm = processMessageFile h T m rg dir errDir entry st;
       tt = tryTaskFile h T m dir entry st;
       pt = processTaskFile h T m dir errDir entry st
   in p \<noteq> q
    \<and> (fs st p = Some (File content) \<and> isWithinBoundary dir p \<longrightarrow>
         (fst tm = Returned) = (\<not> thrown_m)
       \<and> (\<not> thrown_m \<longrightarrow> pm = snd tm \<and> fs pm = (fs st)(p := None))
       \<and> (thrown_m \<and> movable \<longrightarrow>
            fs pm = moved
          \<and> trace pm = trace (snd tm) @ [Log Error ''Error processing IPC message''])
       \<and> (thrown_m \<and> \<not> movable \<longrightarrow>
            fs pm = fs st
          \<and> trace pm = trace (snd tm) @ [Log Error ''Error processing IPC message'', failed])
       \<and> (fst tt = Returned) = (\<not> thrown_t)
       \<and> (\<not> thrown_t \<longrightarrow> pt = snd tt \<and> fs pt = (fs st)(p := None))
       \<and> (thrown_t \<and> movable \<longrightarrow>
            fs pt = moved
          \<and> trace pt = trace (snd tt) @ [Log Error ''Error processing IPC task''])
       \<and> (thrown_t \<and> \<not> movable \<longrightarrow>
            fs pt = fs st
          \<and> trace pt = trace (snd tt) @ [Log Error ''Error processing IPC task'', failed]))
    \<and> (fs st p = Some n \<and> (\<not> isFile n \<or> isSymbolicLink n) \<longrightarrow>
         pm = log Warn ''Rejected non-regular IPC message file'' st
       \<and> pt = log Warn ''Rejected non-regular IPC task file'' st)"
proof -
  let ?p = "dir @ [entry]"
  let ?q = "errDir @ [T @ ''-'' @ entry]"
  let ?st1 = "st\<lparr>trace := trace st @ [ReadFile ?p]\<rparr>"
  let ?thrown_m = "case JSON_parse h content of
                     None \<Rightarrow> True
                   | Some data \<Rightarrow> fst (forward h data T m rg ?st1) \<noteq> Returned"
  let ?thrown_t = "case JSON_parse h content of
                     None \<Rightarrow> True
                   | Some data \<Rightarrow> fst (processTaskIpc h data T m ?st1) \<noteq> Returned"
  let ?movable = "length (T @ ''-'' @ entry) \<le> NAME_MAX h \<and> fs st errDir = Some Dir
                  \<and> \<not> rename_refused h ?p ?q \<and> fs st ?q \<noteq> Some Dir"
  let ?moved = "((fs st)(?p := None))(?q \<mapsto> File content)"
  let ?failed = "Log Error ''Failed to move IPC file to errors directory''"
  let ?tm = "tryMessageFile h T m rg dir entry st"
  let ?pm = "processMessageFile h T m rg dir errDir entry st"
  let ?tt = "tryTaskFile h T m dir entry st"
  let ?pt = "processTaskFile h T m dir errDir entry st"
  have msg:
    "(fst ?tm = Returned) = (\<not> ?thrown_m)"
    "\<not> ?thrown_m \<Longrightarrow> ?pm = snd ?tm"
    "\<not> ?thrown_m \<Longrightarrow> fs ?pm = (fs st)(?p := None)"
    "?thrown_m \<and> ?movable \<Longrightarrow> fs ?pm = ?moved"
    "?thrown_m \<and> ?movable \<Longrightarrow>
       trace ?pm = trace (snd ?tm) @ [Log Error ''Error processing IPC message'']"
    "?thrown_m \<and> \<not> ?movable \<Longrightarrow> fs ?pm = fs st"
    "?thrown_m \<and> \<not> ?movable \<Longrightarrow>
       trace ?pm = trace (snd ?tm) @ [Log Error ''Error processing IPC message'', ?failed]"
    if r: "fs st ?p = Some (File content) \<and> isWithinBoundary dir ?p"
  proof -
    from r have r1: "fs st ?p = Some (File content)" and r2: "isWithinBoundary dir ?p"
      by simp_all
    from message_file_outcome [OF r1 r2, of h T m rg errDir]
    obtain c st2 where tm: "?tm = (c, st2)"
      and ceq: "(c = Returned) = (\<not> ?thrown_m)"
      and pm: "?pm =
          (if c = Returned then st2
           else if ?movable
             then (log Error ''Error processing IPC message'' st2)\<lparr>fs := ?moved\<rparr>
             else log Error ''Failed to move IPC file to errors directory''
                    (log Error ''Error processing IPC message'' st2))"
      and f2: "fs st2 = (if c = Returned then (fs st)(?p := None) else fs st)"
      by (elim exE conjE) (rule that, assumption+)
    show "(fst ?tm = Returned) = (\<not> ?thrown_m)"
      by (simp only: tm fst_conv ceq)
    show "?pm = snd ?tm" if "\<not> ?thrown_m"
      using that ceq by (simp only: tm snd_conv pm) simp
    show "fs ?pm = (fs st)(?p := None)" if "\<not> ?thrown_m"
      using that ceq f2 by (simp only: pm) simp
    show "fs ?pm = ?moved" if "?thrown_m \<and> ?movable"
      using that ceq by (simp only: pm) simp
    show "trace ?pm = trace (snd ?tm) @ [Log Error ''Error processing IPC message'']"
      if "?thrown_m \<and> ?movable"
      using that ceq by (simp only: pm tm snd_conv) (simp add: log_def)
    show "fs ?pm = fs st" if "?thrown_m \<and> \<not> ?movable"
      using that ceq f2 by (simp only: pm) (simp add: log_def)
    show "trace ?pm = trace (snd ?tm) @ [Log Error ''Error processing IPC message'', ?failed]"
      if "?thrown_m \<and> \<not> ?movable"
      using that ceq by (simp only: pm tm snd_conv) (simp add: log_def)
  qed
  have tsk:
    "(fst ?tt = Returned) = (\<not> ?thrown_t)"
    "\<not> ?thrown_t \<Longrightarrow> ?pt = snd ?tt"
    "\<not> ?thrown_t \<Longrightarrow> fs ?pt = (fs st)(?p := None)"
    "?thrown_t \<and> ?movable \<Longrightarrow> fs ?pt = ?moved"
    "?thrown_t \<and> ?movable \<Longrightarrow>
       trace ?pt = trace (snd ?tt) @ [Log Error ''Error processing IPC task'']"
    "?thrown_t \<and> \<not> ?movable \<Longrightarrow> fs ?pt = fs st"
    "?thrown_t \<and> \<not> ?movable \<Longrightarrow>
       trace ?pt = trace (snd ?tt) @ [Log Error ''Error processing IPC task'', ?failed]"
    if r: "fs st ?p = Some (File content) \<and> isWithinBoundary dir ?p"
  proof -
    from r have r1: "fs st ?p = Some (File content)" and r2: "isWithinBoundary dir ?p"
      by simp_all
    from task_file_outcome [OF r1 r2, of h T m errDir]
    obtain c st2 where tt: "?tt = (c, st2)"
      and ceq: "(c = Returned) = (\<not> ?thrown_t)"
      and pt: "?pt =
          (if c = Returned then st2
           else if ?movable
             then (log Error ''Error processing IPC task'' st2)\<lparr>fs := ?moved\<rparr>
             else log Error ''Failed to move IPC file to errors directory''
                    (log Error ''Error processing IPC task'' st2))"
      and f2: "fs st2 = (if c = Returned then (fs st)(?p := None) else fs st)"
      by (elim exE conjE) (rule that, assumption+)
    show "(fst ?tt = Returned) = (\<not> ?thrown_t)"
      by (simp only: tt fst_conv ceq)
    show "?pt = snd ?tt" if "\<not> ?thrown_t"
      using that ceq by (simp only: tt snd_conv pt) simp
    show "fs ?pt = (fs st)(?p := None)" if "\<not> ?thrown_t"
      using that ceq f2 by (simp only: pt) simp
    show "fs ?pt = ?moved" if "?thrown_t \<and> ?movable"
      using that ceq by (simp only: pt) simp
    show "trace ?pt = trace (snd ?tt) @ [Log Error ''Error processing IPC task'']"
      if "?thrown_t \<and> ?movable"
      using that ceq by (simp only: pt tt snd_conv) (simp add: log_def)
    show "fs ?pt = fs st" if "?thrown_t \<and> \<not> ?movable"
      using that ceq f2 by (simp only: pt) (simp add: log_def)
    show "trace ?pt = trace (snd ?tt) @ [Log Error ''Error processing IPC task'', ?failed]"
      if "?thrown_t \<and> \<not> ?movable"
      using that ceq by (simp only: pt tt snd_conv) (simp add: log_def)
  qed
  have skipped:
    "?pm = log Warn ''Rejected non-regular IPC message file'' st"
    "?pt = log Warn ''Rejected non-regular IPC task file'' st"
    if r: "fs st ?p = Some n \<and> (\<not> isFile n \<or> isSymbolicLink n)"
  proof -
    from r have r1: "fs st ?p = Some n" and r2: "\<not> isFile n \<or> isSymbolicLink n"
      by simp_all
    show "?pm = log Warn ''Rejected non-regular IPC message file'' st"
      by (simp add: processMessageFile_def non_regular_message [OF r1 r2])
    show "?pt = log Warn ''Rejected non-regular IPC task file'' st"
      by (simp add: processTaskFile_def non_regular_task [OF r1 r2])
  qed
  have pq: "?p \<noteq> ?q"
    by (rule quarantine_name_differs)
  have regular:
    "(fst ?tm = Returned) = (\<not> ?thrown_m)
       \<and> (\<not> ?thrown_m \<longrightarrow> ?pm = snd ?tm \<and> fs ?pm = (fs st)(?p := None))
       \<and> (?thrown_m \<and> ?movable \<longrightarrow>
            fs ?pm = ?moved
          \<and> trace ?pm = trace (snd ?tm) @ [Log Error ''Error processing IPC message''])
       \<and> (?thrown_m \<and> \<not> ?movable \<longrightarrow>
            fs ?pm = fs st
          \<and> trace ?pm = trace (snd ?tm) @ [Log Error ''Error processing IPC message'', ?failed])
       \<and> (fst ?tt = Returned) = (\<not> ?thrown_t)
       \<and> (\<not> ?thrown_t \<longrightarrow> ?pt = snd ?tt \<and> fs ?pt = (fs st)(?p := None))
       \<and> (?thrown_t \<and> ?movable \<longrightarrow>
            fs ?pt = ?moved
          \<and> trace ?pt = trace (snd ?tt) @ [Log Error ''Error processing IPC task''])
       \<and> (?thrown_t \<and> \<not> ?movable \<longrightarrow>
            fs ?pt = fs st
          \<and> trace ?pt = trace (snd ?tt) @ [Log Error ''Error processing IPC task'', ?failed])"
    if r: "fs st ?p = Some (File content) \<and> isWithinBoundary dir ?p"
  proof (intro conjI impI)
    show "(fst ?tm = Returned) = (\<not> ?thrown_m)" by (rule msg(1) [OF r])
    show "?pm = snd ?tm" if "\<not> ?thrown_m" using r that by (rule msg(2))
    show "fs ?pm = (fs st)(?p := None)" if "\<not> ?thrown_m" using r that by (rule msg(3))
    show "fs ?pm = ?moved" if "?thrown_m \<and> ?movable" using r that by (rule msg(4))
    show "trace ?pm = trace (snd ?tm) @ [Log Error ''Error processing IPC message'']"
      if "?thrown_m \<and> ?movable" using r that by (rule msg(5))
    show "fs ?pm = fs st" if "?thrown_m \<and> \<not> ?movable" using r that by (rule msg(6))
    show "trace ?pm = trace (snd ?tm) @ [Log Error ''Error processing IPC message'', ?failed]"
      if "?thrown_m \<and> \<not> ?movable" using r that by (rule msg(7))
    show "(fst ?tt = Returned) = (\<not> ?thrown_t)" by (rule tsk(1) [OF r])
    show "?pt = snd ?tt" if "\<not> ?thrown_t" using r that by (rule tsk(2))
    show "fs ?pt = (fs st)(?p := None)" if "\<not> ?thrown_t" using r that by (rule tsk(3))
    show "fs ?pt = ?moved" if "?thrown_t \<and> ?movable" using r that by (rule tsk(4))
    show "trace ?pt = trace (snd ?tt) @ [Log Error ''Error processing IPC task'']"
      if "?thrown_t \<and> ?movable" using r that by (rule tsk(5))
    show "fs ?pt = fs st" if "?thrown_t \<and> \<not> ?movable" using r that by (rule tsk(6))
    show "trace ?pt = trace (snd ?tt) @ [Log Error ''Error processing IPC task'', ?failed]"
      if "?thrown_t \<and> \<not> ?movable" using r that by (rule tsk(7))
  qed
  have other:
    "?pm = log Warn ''Rejected non-regular IPC message file'' st
       \<and> ?pt = log Warn ''Rejected non-regular IPC task file'' st"
    if r: "fs st ?p = Some n \<and> (\<not> isFile n \<or> isSymbolicLink n)"
    using skipped [OF r] by (intro conjI)
  show ?thesis
    unfolding Let_def
  proof (intro conjI)
    show "?p \<noteq> ?q" by (rule pq)
    show "fs st ?p = Some (File content) \<and> isWithinBoundary dir ?p \<longrightarrow>
       (fst ?tm = Returned) = (\<not> ?thrown_m)
       \<and> (\<not> ?thrown_m \<longrightarrow> ?pm = snd ?tm \<and> fs ?pm = (fs st)(?p := None))
       \<and> (?thrown_m \<and> ?movable \<longrightarrow>
            fs ?pm = ?moved
          \<and> trace ?pm = trace (snd ?tm) @ [Log Error ''Error processing IPC message''])
       \<and> (?thrown_m \<and> \<not> ?movable \<longrightarrow>
            fs ?pm = fs st
          \<and> trace ?pm = trace (snd ?tm) @ [Log Error ''Error processing IPC message'', ?failed])
       \<and> (fst ?tt = Returned) = (\<not> ?thrown_t)
       \<and> (\<not> ?thrown_t \<longrightarrow> ?pt = snd ?tt \<and> fs ?pt = (fs st)(?p := None))
       \<and> (?thrown_t \<and> ?movable \<longrightarrow>
            fs ?pt = ?moved
          \<and> trace ?pt = trace (snd ?tt) @ [Log Error ''Error processing IPC task''])
       \<and> (?thrown_t \<and> \<not> ?movable \<longrightarrow>
            fs ?pt = fs st
          \<and> trace ?pt = trace (snd ?tt) @ [Log Error ''Error processing IPC task'', ?failed])"
      by (rule impI) (rule regular)
    show "fs st ?p = Some n \<and> (\<not> isFile n \<or> isSymbolicLink n) \<longrightarrow>
       ?pm = log Warn ''Rejected non-regular IPC message file'' st
       \<and> ?pt = log Warn ''Rejected non-regular IPC task file'' st"
      by (rule impI) (rule other)
  qed
qed


section \<open>The installation at work\<close>

lemma fs0_messages:
  "fs st0 (messages0 @ [''a.json'']) = Some (File ''message to jid-a'')"
  "fs st0 (messages0 @ [''b.json'']) = Some (File ''message to jid-b'')"
  "fs st0 (messages0 @ [''link.json'']) = Some (Symlink (messages0 @ [''b.json'']))"
  by (simp_all add: st0_def fs0_def messages0_def tasks0_def errors0_def)

lemma fs0_tasks:
  "fs st0 (tasks0 @ [''bad.json'']) = Some (File ''{'')"
  "fs st0 (errors0 @ [''alpha-bad.json'']) = None"
  "fs st0 errors0 = Some Dir"
  by (simp_all add: st0_def fs0_def messages0_def tasks0_def errors0_def)

lemma blocked0_tasks:
  "fs blocked0 (tasks0 @ [''bad.json'']) = Some (File ''{'')"
  "fs blocked0 (errors0 @ [''alpha-bad.json'']) = Some Dir"
  by (simp_all add: blocked0_def st0_def fs0_def messages0_def tasks0_def errors0_def)

lemma within0:
  "isWithinBoundary messages0 (messages0 @ [''a.json''])"
  "isWithinBoundary messages0 (messages0 @ [''b.json''])"
  "isWithinBoundary tasks0 (tasks0 @ [''bad.json''])"
  by (simp_all add: isWithinBoundary_child valid_segment_def startsWith_def)

lemma resolve_link:
  "f p = Some (Symlink t) \<Longrightarrow> f t = Some (File c) \<Longrightarrow> resolve (Suc (Suc k)) f p = Inr t"
  by simp

lemma realpathSync_link:
  assumes "fs st p = Some (Symlink t)" and "fs st t = Some (File c)"
  shows "realpathSync st p = Inr t"
proof -
  have e: "(41::nat) = Suc (Suc 39)" by simp
  show ?thesis
    unfolding realpathSync_def e by (rule resolve_link [OF assms])
qed

lemma link_not_regular:
  "\<not> isFile (Symlink t) \<or> isSymbolicLink (Symlink t)"
  by (simp add: isFile_def)

lemma host0_parse:
  "JSON_parse host0 ''message to jid-a'' = Some (message_to ''jid-a'')"
  "JSON_parse host0 ''message to jid-b'' = Some (message_to ''jid-b'')"
  "JSON_parse host0 ''{'' = None"
  by (simp_all add: host0_def parse0_def)

lemma message_to_fields:
  "type (message_to j) = Some ''message''"
  "chatJid (message_to j) = Some j"
  "text_m (message_to j) = Some ''hello''"
  by (simp_all add: message_to_def no_data_def)

text \<open>
  The task file with the interval beyond the range of a \<open>Date\<close>: the exception
  reaches the \<open>catch\<close> of the loop, the file goes to quarantine and no task is
  created.
\<close>

lemma huge_interval_file_quarantined:
  "fst (tryTaskFile host0 ''alpha'' False tasks0 ''huge.json'' st0) = Threw RangeError
   \<and> fs (processTaskFile host0 ''alpha'' False tasks0 errors0 ''huge.json'' st0)
       (tasks0 @ [''huge.json'']) = None
   \<and> fs (processTaskFile host0 ''alpha'' False tasks0 errors0 ''huge.json'' st0)
       (errors0 @ [''alpha-huge.json'']) = Some (File ''interval 8640000000000000'')
   \<and> tasks (processTaskFile host0 ''alpha'' False tasks0 errors0 ''huge.json'' st0)
       = tasks st0"
proof -
  let ?st1 = "st0\<lparr>trace := trace st0 @ [ReadFile (tasks0 @ [''huge.json''])]\<rparr>"
  have reg: "fs st0 (tasks0 @ [''huge.json'']) = Some (File ''interval 8640000000000000'')"
    by (simp add: st0_def fs0_def messages0_def tasks0_def errors0_def)
  have inb: "isWithinBoundary tasks0 (tasks0 @ [''huge.json''])"
    by (simp add: isWithinBoundary_child valid_segment_def startsWith_def)
  have q: "fs st0 (errors0 @ [''alpha-huge.json'']) = None"
    by (simp add: st0_def fs0_def messages0_def tasks0_def errors0_def)
  have p: "JSON_parse host0 ''interval 8640000000000000''
             = Some (schedule_command ''interval'' ''8640000000000000'')"
    by (simp add: host0_def parse0_def)
  have g: "groups ?st1 ''jid-a'' = Some (group_in ''alpha'')"
    by (simp add: groups0_a)
  have "processTaskIpc host0 (schedule_command ''interval'' ''8640000000000000'') ''alpha''
          False ?st1 = (Threw RangeError, ?st1)"
    using interval_out_of_range [of "schedule_command ''interval'' ''8640000000000000''"
        "''report''" "''8640000000000000''" "''jid-a''" ?st1 "group_in ''alpha''" False
        "''alpha''" 8640000000000000 host0] g
    by (simp add: schedule_command_def no_data_def group_in_def parseInt10_huge
        valid_time_def host0_def)
  then have t: "tryTaskFile host0 ''alpha'' False tasks0 ''huge.json'' st0
                  = (Threw RangeError, ?st1)"
    using tryTaskFile_regular [OF reg inb, of host0 "''alpha''" False] p by simp
  have f: "fs ?st1 = fs st0" by simp
  show ?thesis
    using processTaskFile_regular [OF reg inb t f, of errors0] t q fs0_tasks(3)
      quarantine_name_differs [of tasks0 "''huge.json''" errors0 "''alpha''"]
    by (simp add: log_def host0_def)
qed

theorem non_regular_entry_witness:
  "processMessageFile host0 ''beta'' False groups0 messages0 errors0 ''link.json'' st0
     = log Warn ''Rejected non-regular IPC message file'' st0
   \<and> processTaskFile host0 ''beta'' False messages0 errors0 ''link.json'' st0
     = log Warn ''Rejected non-regular IPC task file'' st0
   \<and> realpathSync st0 (messages0 @ [''link.json'']) = Inr (messages0 @ [''b.json''])
   \<and> isWithinBoundary messages0 (messages0 @ [''b.json''])"
  using non_regular_entry_skipped [OF fs0_messages(3) link_not_regular,
      where h = host0 and T = "''beta''" and m = False and rg = groups0 and errDir = errors0]
    realpathSync_link [OF fs0_messages(3) fs0_messages(2)]
  by (simp add: within0)

theorem message_authorization_witness:
  "sends (trace (processMessageFile host0 ''beta'' False groups0 messages0 errors0
                   ''a.json'' st0)) = []
   \<and> sends (trace (processMessageFile host0 ''beta'' False groups0 messages0 errors0
                   ''b.json'' st0)) = [(''jid-b'', ''hello'')]
   \<and> sends (trace (processMessageFile host0 ''main'' True groups0 messages0 errors0
                   ''a.json'' st0)) = [(''jid-a'', ''hello'')]"
  using message_authorization [OF fs0_messages(1) within0(1) host0_parse(1) message_to_fields,
      where T = "''beta''" and rg = groups0 and errDir = errors0]
    message_authorization [OF fs0_messages(2) within0(2) host0_parse(2) message_to_fields,
      where T = "''beta''" and rg = groups0 and errDir = errors0]
    message_authorization [OF fs0_messages(1) within0(1) host0_parse(1) message_to_fields,
      where T = "''main''" and rg = groups0 and errDir = errors0]
  by (simp add: host0_def groups0_def group_in_def Let_def st0_def)

lemma long0_tasks:
  "fs long0 (tasks0 @ [long_name]) = Some (File ''{'')"
  "isWithinBoundary tasks0 (tasks0 @ [long_name])"
  "length long_name = 255"
  "length (''alpha'' @ ''-'' @ long_name) = 261"
  by (simp_all add: long0_def long_name_def isWithinBoundary_child valid_segment_def
      startsWith_def)

lemma forward_denied0:
  "fst (forward host0 (message_to ''jid-a'') ''beta'' False groups0 st) = Returned"
  by (simp add: forward_def message_to_def no_data_def groups0_def group_in_def)

theorem entry_consumed_witness:
  "fs (processMessageFile host0 ''beta'' False groups0 messages0 errors0 ''a.json'' st0)
     = (fs st0)(messages0 @ [''a.json''] := None)
   \<and> fs (processTaskFile host0 ''alpha'' False tasks0 errors0 ''bad.json'' st0)
     = ((fs st0)(tasks0 @ [''bad.json''] := None))
         (errors0 @ [''alpha-bad.json''] \<mapsto> File ''{'')
   \<and> trace (processTaskFile host0 ''alpha'' False tasks0 errors0 ''bad.json'' st0)
     = trace (snd (tryTaskFile host0 ''alpha'' False tasks0 ''bad.json'' st0))
         @ [Log Error ''Error processing IPC task'']
   \<and> fs (processTaskFile host0 ''alpha'' False tasks0 errors0 ''bad.json'' blocked0)
     = fs blocked0
   \<and> fs (processTaskFile host0 ''alpha'' False tasks0 errors0 long_name long0) = fs long0
   \<and> trace (processTaskFile host0 ''alpha'' False tasks0 errors0 long_name long0)
     = trace (snd (tryTaskFile host0 ''alpha'' False tasks0 long_name long0))
         @ [Log Error ''Error processing IPC task'',
            Log Error ''Failed to move IPC file to errors directory'']
   \<and> processMessageFile host0 ''beta'' False groups0 messages0 errors0 ''link.json'' st0
     = log Warn ''Rejected non-regular IPC message file'' st0"
proof -
  note a = entry_consumed_or_skipped [where dir = messages0 and entry = "''a.json''"
      and errDir = errors0 and T = "''beta''" and st = st0 and h = host0
      and content = "''message to jid-a''" and m = False and rg = groups0 and n = Dir]
  note b = entry_consumed_or_skipped [where dir = tasks0 and entry = "''bad.json''"
      and errDir = errors0 and T = "''alpha''" and st = st0 and h = host0
      and content = "''{''" and m = False and rg = groups0 and n = Dir]
  note c = entry_consumed_or_skipped [where dir = tasks0 and entry = "''bad.json''"
      and errDir = errors0 and T = "''alpha''" and st = blocked0 and h = host0
      and content = "''{''" and m = False and rg = groups0 and n = Dir]
  note d = entry_consumed_or_skipped [where dir = tasks0 and entry = long_name
      and errDir = errors0 and T = "''alpha''" and st = long0 and h = host0
      and content = "''{''" and m = False and rg = groups0 and n = Dir]
  note e = entry_consumed_or_skipped [where dir = messages0 and entry = "''link.json''"
      and errDir = errors0 and T = "''beta''" and st = st0 and h = host0
      and content = "''{''" and m = False and rg = groups0
      and n = "Symlink (messages0 @ [''b.json''])"]
  have e0: "fs long0 errors0 = Some Dir" "fs blocked0 errors0 = Some Dir"
    by (simp_all add: long0_def blocked0_def st0_def fs0_def messages0_def tasks0_def
        errors0_def long_name_def)
  have h0: "NAME_MAX host0 = 255" "rename_refused host0 x y = False" for x y
    by (simp_all add: host0_def)
  have A: "fs (processMessageFile host0 ''beta'' False groups0 messages0 errors0 ''a.json'' st0)
     = (fs st0)(messages0 @ [''a.json''] := None)"
    using a by (clarsimp simp: Let_def fs0_messages within0 host0_parse forward_denied0)
  have B: "fs (processTaskFile host0 ''alpha'' False tasks0 errors0 ''bad.json'' st0)
       = ((fs st0)(tasks0 @ [''bad.json''] := None))
           (errors0 @ [''alpha-bad.json''] \<mapsto> File ''{'')
     \<and> trace (processTaskFile host0 ''alpha'' False tasks0 errors0 ''bad.json'' st0)
       = trace (snd (tryTaskFile host0 ''alpha'' False tasks0 ''bad.json'' st0))
           @ [Log Error ''Error processing IPC task'']"
    using b by (clarsimp simp: Let_def fs0_tasks within0 host0_parse h0)
  have C: "fs (processTaskFile host0 ''alpha'' False tasks0 errors0 ''bad.json'' blocked0)
     = fs blocked0"
    using c by (clarsimp simp: Let_def blocked0_tasks within0 host0_parse h0 e0)
  have D: "fs (processTaskFile host0 ''alpha'' False tasks0 errors0 long_name long0) = fs long0
     \<and> trace (processTaskFile host0 ''alpha'' False tasks0 errors0 long_name long0)
       = trace (snd (tryTaskFile host0 ''alpha'' False tasks0 long_name long0))
           @ [Log Error ''Error processing IPC task'',
              Log Error ''Failed to move IPC file to errors directory'']"
    using d long0_tasks(4) by (clarsimp simp: Let_def long0_tasks(1,2) host0_parse h0 e0)
  have E: "processMessageFile host0 ''beta'' False groups0 messages0 errors0 ''link.json'' st0
     = log Warn ''Rejected non-regular IPC message file'' st0"
    using e by (clarsimp simp: Let_def fs0_messages isFile_def)
  show ?thesis
    using A B C D E by (intro conjI) simp_all
qed

text \<open>
  C5, as stated, fails. In the installation, the entry \<open>link.json\<close> of the
  messages directory of beta is a symbolic link: the turn of the loop ends
  without an exception and the entry is still there. And with a directory at
  the quarantine name, the task file \<open>bad.json\<close> of alpha, whose content does
  not parse, is still in the tasks directory after the turn and is not in
  quarantine.
\<close>

theorem consumption_as_stated_fails:
  "\<not> consumed_as_claimed
       (fst (tryMessageFile host0 ''beta'' False groups0 messages0 ''link.json'' st0)) st0
       (processMessageFile host0 ''beta'' False groups0 messages0 errors0 ''link.json'' st0)
       (messages0 @ [''link.json'']) (errors0 @ [''beta-link.json''])
   \<and> \<not> consumed_as_claimed
       (fst (tryTaskFile host0 ''alpha'' False tasks0 ''bad.json'' blocked0)) blocked0
       (processTaskFile host0 ''alpha'' False tasks0 errors0 ''bad.json'' blocked0)
       (tasks0 @ [''bad.json'']) (errors0 @ [''alpha-bad.json''])"
proof
  have t: "tryMessageFile host0 ''beta'' False groups0 messages0 ''link.json'' st0
             = (Skipped, log Warn ''Rejected non-regular IPC message file'' st0)"
    by (rule non_regular_message [OF fs0_messages(3) link_not_regular])
  show "\<not> consumed_as_claimed
       (fst (tryMessageFile host0 ''beta'' False groups0 messages0 ''link.json'' st0)) st0
       (processMessageFile host0 ''beta'' False groups0 messages0 errors0 ''link.json'' st0)
       (messages0 @ [''link.json'']) (errors0 @ [''beta-link.json''])"
    by (simp add: consumed_as_claimed_def processMessageFile_def t fs_log fs0_messages)
next
  let ?st1 = "blocked0\<lparr>trace := trace blocked0 @ [ReadFile (tasks0 @ [''bad.json''])]\<rparr>"
  have t: "tryTaskFile host0 ''alpha'' False tasks0 ''bad.json'' blocked0
             = (Threw SyntaxError, ?st1)"
    using tryTaskFile_regular [OF blocked0_tasks(1) within0(3), of host0 "''alpha''" False]
    by (simp add: host0_parse)
  have f: "fs ?st1 = fs blocked0" by simp
  have "fs (processTaskFile host0 ''alpha'' False tasks0 errors0 ''bad.json'' blocked0)
          = fs blocked0"
    using processTaskFile_regular [OF blocked0_tasks(1) within0(3) t f, of errors0]
    by (simp add: blocked0_tasks fs_log)
  then show "\<not> consumed_as_claimed
       (fst (tryTaskFile host0 ''alpha'' False tasks0 ''bad.json'' blocked0)) blocked0
       (processTaskFile host0 ''alpha'' False tasks0 errors0 ''bad.json'' blocked0)
       (tasks0 @ [''bad.json'']) (errors0 @ [''alpha-bad.json''])"
    by (simp add: consumed_as_claimed_def t blocked0_tasks)
qed


lemma main0_messages:
  "fs main0 (main_messages0 @ [''empty.json'']) = Some (File ''message without text'')"
  "fs main0 (main_messages0 @ [''..x.json'']) = Some (File ''message to jid-a'')"
  by (simp_all add: main0_def main_messages0_def)

lemma within_main0:
  "isWithinBoundary main_messages0 (main_messages0 @ [''empty.json''])"
  "\<not> isWithinBoundary main_messages0 (main_messages0 @ [''..x.json''])"
  by (simp_all add: isWithinBoundary_child valid_segment_def startsWith_def)

text \<open>
  C3, as stated, fails. In the messages directory of the main tenant, a message
  envelope for the registered channel \<open>jid-a\<close> whose text is the empty string is
  not forwarded: the guard of line 145 takes it for no message, and the file is
  deleted. And the envelope with the text \<open>hello\<close> in the file \<open>..x.json\<close> is not
  forwarded either: the boundary check of line 136 refuses the file before it
  is read.
\<close>

theorem forwarding_as_stated_fails:
  "\<not> forwarded_as_claimed host0 ''main'' groups0 ''jid-a'' [] main0
       (processMessageFile host0 ''main'' True groups0 main_messages0 errors0
          ''empty.json'' main0)
   \<and> \<not> forwarded_as_claimed host0 ''main'' groups0 ''jid-a'' ''hello'' main0
       (processMessageFile host0 ''main'' True groups0 main_messages0 errors0
          ''..x.json'' main0)"
proof
  let ?st1 = "main0\<lparr>trace := trace main0
                  @ [ReadFile (main_messages0 @ [''empty.json''])]\<rparr>"
  have p: "JSON_parse host0 ''message without text''
             = Some ((message_to ''jid-a'')\<lparr>text_m := Some []\<rparr>)"
    by (simp add: host0_def parse0_def)
  have f: "forward host0 ((message_to ''jid-a'')\<lparr>text_m := Some []\<rparr>) ''main'' True groups0 ?st1
             = (Returned, ?st1)"
    by (simp add: forward_def message_to_def no_data_def)
  have t: "tryMessageFile host0 ''main'' True groups0 main_messages0 ''empty.json'' main0
             = (Returned, ?st1\<lparr>fs := (fs ?st1)(main_messages0 @ [''empty.json''] := None)\<rparr>)"
    using tryMessageFile_regular [OF main0_messages(1) within_main0(1),
        of host0 "''main''" True groups0] p f
    by simp
  have "sends (trace (processMessageFile host0 ''main'' True groups0 main_messages0 errors0
                        ''empty.json'' main0)) = sends (trace main0)"
    by (simp add: processMessageFile_def t sends_append)
  then show "\<not> forwarded_as_claimed host0 ''main'' groups0 ''jid-a'' [] main0
       (processMessageFile host0 ''main'' True groups0 main_messages0 errors0
          ''empty.json'' main0)"
    by (simp add: forwarded_as_claimed_def host0_def)
next
  have t: "tryMessageFile host0 ''main'' True groups0 main_messages0 ''..x.json'' main0
             = (Skipped,
                log Warn ''Rejected IPC message file outside canonical messages directory''
                  main0)"
    using main0_messages(2) within_main0(2)
    by (simp add: tryMessageFile_def lstatSync_def isFile_def isSymbolicLink_def
        realpathSync_File)
  have "sends (trace (processMessageFile host0 ''main'' True groups0 main_messages0 errors0
                        ''..x.json'' main0)) = sends (trace main0)"
    by (simp add: processMessageFile_def t log_def sends_append)
  then show "\<not> forwarded_as_claimed host0 ''main'' groups0 ''jid-a'' ''hello'' main0
       (processMessageFile host0 ''main'' True groups0 main_messages0 errors0
          ''..x.json'' main0)"
    by (simp add: forwarded_as_claimed_def host0_def)
qed


text \<open>
  A directory moves to quarantine with what lies below it.
\<close>

lemma renameSync_moves_directory:
  "\<exists>st'. renameSync host0
            (st0\<lparr>fs := (fs st0)(tasks0 @ [''d.json''] \<mapsto> Dir,
                                tasks0 @ [''d.json'', ''x''] \<mapsto> File ''y'')\<rparr>)
            (tasks0 @ [''d.json'']) (errors0 @ [''alpha-d.json'']) = Inr st'
      \<and> fs st' (errors0 @ [''alpha-d.json'']) = Some Dir
      \<and> fs st' (errors0 @ [''alpha-d.json'', ''x'']) = Some (File ''y'')
      \<and> fs st' (tasks0 @ [''d.json'']) = None
      \<and> fs st' (tasks0 @ [''d.json'', ''x'']) = None
      \<and> fs st' (tasks0 @ [''bad.json'']) = Some (File ''{'')"
  by (simp add: renameSync_def move_tree_def host0_def st0_def fs0_def messages0_def
      tasks0_def errors0_def)

end
